theory Spec2Isabelle
  imports Main "HOL-Library.Word"
begin

section \<open>Data model\<close>

text \<open>
  The status codes returned by the library. The enumeration itself is declared in a
  header that is not part of the two files verified here; the constructors are the
  ones the two files name (\<open>STATUS_OK\<close>, \<open>IO_ERROR\<close>, \<open>INVALID_INPUT\<close>) and the
  remaining error kinds of the error taxonomy.
\<close>

datatype AFF4Status = STATUS_OK | NOT_FOUND | IO_ERROR | INVALID_INPUT | PARSING_ERROR

text \<open>
  A \<open>URN\<close> is represented by its \<open>value\<close> member, the string that keys the object
  cache and the triple store. An \<open>RDFValue\<close> is likewise represented by the string it
  carries: no other member of either class is used by the code below.
\<close>

type_synonym URN = string
type_synonym RDFValue = string

text \<open>\<open>typedef unordered_map<string, unique_ptr<RDFValue> > AFF4_Attributes\<close>\<close>

type_synonym AFF4_Attributes = "string \<rightharpoonup> RDFValue"

text \<open>The result of \<open>URN::Parse\<close>; the code reads the members \<open>scheme\<close> and \<open>path\<close>.\<close>

record uri_components =
  scheme :: string
  path :: string

text \<open>
  Modelled from the spec: the class \<open>AFF4Object\<close> and its subclasses are declared in
  headers outside the two files. The member \<open>urn\<close> is the one the factory assigns. Per
  the specification a stream is a sequence of bytes read from a current position; these
  are \<open>contents\<close> and \<open>readptr\<close>.
\<close>

record AFF4Object =
  urn :: URN
  contents :: string
  readptr :: nat

text \<open>
  The most derived class of an object is a class name. Objects live in a heap, a list
  indexed by address: the factory allocates at the end of the list, so a new object never
  shares its address with an older one. A pointer is an address or null (\<open>None\<close>).
\<close>

type_synonym class_name = string
type_synonym addr = nat
type_synonym heap = "(class_name \<times> AFF4Object) list"

datatype severity = INFO | WARNING | ERROR

text \<open>
  The state threaded through the program: the members \<open>store\<close> (of \<open>MemoryDataStore\<close>)
  and \<open>ObjectCache\<close> (of \<open>DataStore\<close>), the heap holding the objects the cache owns,
  and what the process has emitted: the glog records, the threshold set by
  \<open>SetStderrLogging\<close>, and the characters written to \<open>cout\<close>.
\<close>

record state =
  store :: "string \<rightharpoonup> AFF4_Attributes"
  ObjectCache :: "string \<rightharpoonup> addr"
  objects :: heap
  glog :: "(severity \<times> string) list"
  stderrthreshold :: severity
  cout :: string

text \<open>
  Ways the process can stop that are not a return: a failed glog \<open>CHECK\<close> aborts,
  dereferencing a null or dangling pointer without a check is undefined behaviour, and a
  call of \<open>exit\<close> inside a library ends the process with the status it is given.
\<close>

datatype fault = CheckFailed | NullDereference | ProcessExit int

section \<open>The checkout handle \<open>AFF4ScopedPtr\<close>\<close>

text \<open>
  The members \<open>ptr_\<close> and \<open>resolver_\<close>, written without the trailing underscore.
  \<open>ptr\<close> is the wrapped pointer. \<open>resolver\<close> tells whether the back-reference points
  to the resolver (there is one resolver); the default constructor does not set it.
\<close>

record AFF4ScopedPtr =
  ptr :: "addr option"
  resolver :: bool

text \<open>\<open>explicit AFF4ScopedPtr(): ptr_(0)\<close>\<close>

definition AFF4ScopedPtr_default :: AFF4ScopedPtr where
  "AFF4ScopedPtr_default = \<lparr>ptr = None, resolver = False\<rparr>"

text \<open>\<open>explicit AFF4ScopedPtr(p, resolver)\<close> with its \<open>CHECK(resolver != NULL)\<close>\<close>

definition AFF4ScopedPtr_new :: "addr option \<Rightarrow> bool \<Rightarrow> fault + AFF4ScopedPtr" where
  "AFF4ScopedPtr_new p r =
     (if r then Inr \<lparr>ptr = p, resolver = r\<rparr> else Inl CheckFailed)"

text \<open>\<open>operator->\<close>: \<open>CHECK(ptr_ != NULL); return ptr_;\<close>\<close>

definition operator_arrow :: "AFF4ScopedPtr \<Rightarrow> fault + addr" where
  "operator_arrow h = (case ptr h of None \<Rightarrow> Inl CheckFailed | Some a \<Rightarrow> Inr a)"

text \<open>\<open>operator!\<close>: \<open>return ptr_ ? false : true;\<close>\<close>

definition operator_not :: "AFF4ScopedPtr \<Rightarrow> bool" where
  "operator_not h = (case ptr h of Some a \<Rightarrow> False | None \<Rightarrow> True)"

text \<open>\<open>operator*\<close>: \<open>return *ptr_;\<close>, with no check before the dereference\<close>

definition operator_star :: "AFF4ScopedPtr \<Rightarrow> fault + addr" where
  "operator_star h = (case ptr h of None \<Rightarrow> Inl NullDereference | Some a \<Rightarrow> Inr a)"

text \<open>\<open>get\<close>: \<open>return ptr_;\<close>\<close>

definition get :: "AFF4ScopedPtr \<Rightarrow> addr option" where
  "get h = ptr h"

text \<open>\<open>release\<close>: returns the pointer and leaves the handle null\<close>

definition release :: "AFF4ScopedPtr \<Rightarrow> addr option \<times> AFF4ScopedPtr" where
  "release h = (ptr h, h\<lparr>ptr := None\<rparr>)"

text \<open>\<open>reset\<close>: \<open>ptr_ = p;\<close>\<close>

definition reset :: "AFF4ScopedPtr \<Rightarrow> addr option \<Rightarrow> AFF4ScopedPtr" where
  "reset h p = h\<lparr>ptr := p\<rparr>"

text \<open>
  The move constructor: the new handle takes \<open>other.release()\<close> and
  \<open>other.resolver_\<close>; the result is the new handle and what is left of \<open>other\<close>.
\<close>

definition move_from :: "AFF4ScopedPtr \<Rightarrow> AFF4ScopedPtr \<times> AFF4ScopedPtr" where
  "move_from other =
     (let (p, other') = release other
      in (\<lparr>ptr = p, resolver = resolver other'\<rparr>, other'))"

section \<open>The rest of the library\<close>

text \<open>
  What the two files use of the rest of the library and only see declared or called:
  the lexicon constants \<open>AFF4_TYPE\<close> and \<open>AFF4_STREAM_WRITE_MODE\<close>; the integer value of
  a status; the resolver's virtual \<open>Get\<close> and \<open>Set\<close> on the triple store (\<open>Get\<close> takes
  the current value of its reference parameter and returns the status with the value the
  parameter has afterwards); the URN constructor, \<open>URN::Parse\<close> and \<open>URN::Append\<close>; the
  class registry (\<open>GetAFF4ClassFactory()->CreateInstance\<close>, giving the class and the
  freshly constructed object for a registered name and null otherwise); the class
  hierarchy that decides a \<open>dynamic_cast\<close> (\<open>is_a e c T\<close>: an object of most derived
  class \<open>c\<close> is a \<open>T\<close>); the virtual methods \<open>LoadFromURN\<close>, \<open>Prepare\<close>, \<open>Read\<close>
  and \<open>Write\<close>, which are chosen by the class of the object and act on the object itself
  (loading also reads and may write the triple store; none of them reaches the object
  cache); and the two static constructors used by the imager, which act on the whole
  state. \<open>Read\<close> returns the bytes, as the code assigns its result to a \<open>string\<close>.
  \<open>Write\<close> is fallible: per the specification (section 7) a failed write is reported to
  the caller as a status, so \<open>Write\<close> returns one along with the object.
\<close>

record env =
  AFF4_TYPE :: string
  AFF4_STREAM_WRITE_MODE :: string
  status_value :: "AFF4Status \<Rightarrow> int"
  Get :: "(string \<rightharpoonup> AFF4_Attributes) \<Rightarrow> URN \<Rightarrow> URN \<Rightarrow> RDFValue
            \<Rightarrow> AFF4Status \<times> RDFValue"
  Set :: "(string \<rightharpoonup> AFF4_Attributes) \<Rightarrow> URN \<Rightarrow> URN \<Rightarrow> RDFValue
            \<Rightarrow> (string \<rightharpoonup> AFF4_Attributes)"
  URN_of :: "string \<Rightarrow> URN"
  Parse :: "URN \<Rightarrow> uri_components"
  Append :: "URN \<Rightarrow> string \<Rightarrow> URN"
  CreateInstance :: "string \<Rightarrow> (class_name \<times> AFF4Object) option"
  is_a :: "class_name \<Rightarrow> class_name \<Rightarrow> bool"
  LoadFromURN :: "class_name \<Rightarrow> (string \<rightharpoonup> AFF4_Attributes) \<Rightarrow> AFF4Object
                    \<Rightarrow> AFF4Status \<times> AFF4Object \<times> (string \<rightharpoonup> AFF4_Attributes)"
  Prepare :: "class_name \<Rightarrow> AFF4Object \<Rightarrow> AFF4Object"
  Read :: "class_name \<Rightarrow> AFF4Object \<Rightarrow> nat \<Rightarrow> string \<times> AFF4Object"
  Write :: "class_name \<Rightarrow> AFF4Object \<Rightarrow> string \<Rightarrow> AFF4Status \<times> AFF4Object"
  NewZipFile :: "state \<Rightarrow> URN \<Rightarrow> AFF4ScopedPtr \<times> state"
  NewAFF4Image :: "state \<Rightarrow> URN \<Rightarrow> URN \<Rightarrow> AFF4ScopedPtr \<times> state"

section \<open>The factory \<open>DataStore::AFF4FactoryOpen\<close>\<close>

text \<open>
  \<open>value.c_str()\<close> streamed into a log record: the characters before the first NUL.
\<close>

definition c_str :: "string \<Rightarrow> string" where
  "c_str v = takeWhile (\<lambda>c. c \<noteq> CHR 0x00) v"

text \<open>
  The text of the warning logged when an object fails to load:
  \<open>"Failed to load " << urn.value.c_str() << " as " << type_urn.value.c_str()\<close>.
\<close>

definition load_warning :: "URN \<Rightarrow> URN \<Rightarrow> string" where
  "load_warning u type_urn = ''Failed to load '' @ c_str u @ '' as '' @ c_str type_urn"

text \<open>
  \<open>AFF4FactoryOpen<T>(urn)\<close>. A cache hit calls \<open>Prepare\<close> on the cached object and
  returns the \<open>dynamic_cast\<close> of its address. Otherwise \<open>type_urn\<close> is default
  constructed (the empty value) and looked up under \<open>AFF4_TYPE\<close>; the registry is asked
  for the declared type when the lookup succeeded and for the URN's scheme when it did
  not. A null instance ends the call with the default handle. The instance gets the URN
  and loads itself; when that fails the warning is logged, the instance (held by the local
  \<open>unique_ptr\<close>) is destroyed and the default handle is returned. Otherwise the cast
  is computed, the instance is moved into the cache under \<open>urn.value\<close>, and the cast is
  returned. The handle constructor is passed \<open>this\<close>, which is not null.
\<close>

definition AFF4FactoryOpen :: "env \<Rightarrow> class_name \<Rightarrow> URN \<Rightarrow> state
                                 \<Rightarrow> fault + (AFF4ScopedPtr \<times> state)" where
  "AFF4FactoryOpen e T u s =
     (case ObjectCache s u of
        Some a \<Rightarrow>
          (if a < length (objects s) then
             (let (c, obj) = objects s ! a;
                  s1 = s\<lparr>objects := (objects s)[a := (c, Prepare e c obj)]\<rparr>
              in (case AFF4ScopedPtr_new (if is_a e c T then Some a else None) True of
                    Inl f \<Rightarrow> Inl f
                  | Inr h \<Rightarrow> Inr (h, s1)))
           else Inl NullDereference)
      | None \<Rightarrow>
          (let (st, type_urn) = Get e (store s) u (AFF4_TYPE e) [];
               created = (if st = STATUS_OK then CreateInstance e type_urn
                          else CreateInstance e (scheme (Parse e u)))
           in (case created of
                 None \<Rightarrow> Inr (AFF4ScopedPtr_default, s)
               | Some (c, obj) \<Rightarrow>
                   (let (st2, obj', store') = LoadFromURN e c (store s) (obj\<lparr>urn := u\<rparr>)
                    in if st2 \<noteq> STATUS_OK then
                         Inr (AFF4ScopedPtr_default,
                              s\<lparr>store := store',
                                glog := glog s @ [(WARNING, load_warning u type_urn)]\<rparr>)
                       else
                         (let a = length (objects s);
                              result = (if is_a e c T then Some a else None);
                              s1 = s\<lparr>store := store',
                                     objects := objects s @ [(c, obj')],
                                     ObjectCache := (ObjectCache s)(u \<mapsto> a)\<rparr>
                          in (case AFF4ScopedPtr_new result True of
                                Inl f \<Rightarrow> Inl f
                              | Inr h \<Rightarrow> Inr (h, s1)))))))"

section \<open>The contract of a stream\<close>

text \<open>
  Modelled from the spec: what \<open>AFF4Stream::Read\<close> has to do. Per the specification,
  \<open>Read(n)\<close> returns the next bytes of the stream, fewer than \<open>n\<close> only at
  end-of-stream and none when the stream is exhausted; the read position moves past what
  was returned.
\<close>

definition stream_Read :: "AFF4Object \<Rightarrow> nat \<Rightarrow> string \<times> AFF4Object" where
  "stream_Read obj n =
     (let data = take n (drop (readptr obj) (contents obj))
      in (data, obj\<lparr>readptr := readptr obj + length data\<rparr>))"

text \<open>
  Modelled from the spec: what \<open>AFF4Stream::Write\<close> has to do. Per the specification,
  \<open>Write(bytes)\<close> appends the bytes to the stream.
\<close>

definition stream_Write :: "AFF4Object \<Rightarrow> string \<Rightarrow> AFF4Object" where
  "stream_Write obj data = obj\<lparr>contents := contents obj @ data\<rparr>"

text \<open>
  The pieces a run of reads of \<open>n\<close> bytes cuts a byte sequence into: each holds \<open>n\<close>
  bytes but the last, which may hold fewer.
\<close>

fun chunks :: "nat \<Rightarrow> string \<Rightarrow> string list" where
  "chunks n xs = (if n = 0 \<or> xs = [] then [] else take n xs # chunks n (drop n xs))"

section \<open>The imager\<close>

text \<open>
  The \<open>while(1)\<close> loop of \<open>ImageStream\<close>, on the heap. \<open>input->Read\<close> and
  \<open>image->Write\<close> go through \<open>operator->\<close> and then to the method of the class of
  the object at the address. \<open>image->Write(data);\<close> is a statement: what the write
  returns is dropped. The loop ends when a read returns no data; a run that never ends is
  \<open>None\<close>. (\<open>img\<close> is the handle \<open>image\<close>.)
\<close>

partial_function (option) ImageStream_loop ::
    "env \<Rightarrow> AFF4ScopedPtr \<Rightarrow> AFF4ScopedPtr \<Rightarrow> 32 word \<Rightarrow> heap
       \<Rightarrow> (fault + heap) option" where
  "ImageStream_loop e input img buffer_size hp =
     (case operator_arrow input of
        Inl f \<Rightarrow> Some (Inl f)
      | Inr i \<Rightarrow>
          if \<not> i < length hp then Some (Inl NullDereference)
          else
            (let data = fst (Read e (fst (hp ! i)) (snd (hp ! i)) (unat buffer_size));
                 hp1 = hp[i := (fst (hp ! i),
                                snd (Read e (fst (hp ! i)) (snd (hp ! i)) (unat buffer_size)))]
             in if length data = 0 then Some (Inr hp1)
                else
                  (case operator_arrow img of
                     Inl f \<Rightarrow> Some (Inl f)
                   | Inr j \<Rightarrow>
                       if \<not> j < length hp1 then Some (Inl NullDereference)
                       else ImageStream_loop e input img buffer_size
                              (hp1[j := (fst (hp1 ! j),
                                         snd (Write e (fst (hp1 ! j)) (snd (hp1 ! j)) data))]))))"

declare ImageStream_loop.simps [code]

text \<open>The default argument \<open>buffer_size=1024*1024\<close> of \<open>ImageStream\<close>.\<close>

definition default_buffer_size :: "32 word" where
  "default_buffer_size = 1024 * 1024"

text \<open>The character written by \<open>"\n"\<close> and by \<open>endl\<close>.\<close>

definition newline :: string where
  "newline = [CHR 0x0A]"

text \<open>
  \<open>ImageStream(resolver, input_urn, output_urn, buffer_size)\<close>: both streams are opened
  before either handle is tested; then the volume and the image are created, each
  tested, and the loop runs. The two error records stream \<open>value.c_str()\<close>.
\<close>

definition ImageStream :: "env \<Rightarrow> state \<Rightarrow> URN \<Rightarrow> URN \<Rightarrow> 32 word
                             \<Rightarrow> (fault + (AFF4Status \<times> state)) option" where
  "ImageStream e s input_urn output_urn buffer_size =
     (case AFF4FactoryOpen e ''AFF4Stream'' input_urn s of
        Inl f \<Rightarrow> Some (Inl f)
      | Inr (input, s1) \<Rightarrow>
     (case AFF4FactoryOpen e ''AFF4Stream'' output_urn s1 of
        Inl f \<Rightarrow> Some (Inl f)
      | Inr (output, s2) \<Rightarrow>
     if operator_not input then
       Some (Inr (IO_ERROR,
         s2\<lparr>glog := glog s2 @
           [(ERROR, ''Failed to open input file: '' @ c_str input_urn @ ''.'' @ newline)]\<rparr>))
     else if operator_not output then
       Some (Inr (IO_ERROR,
         s2\<lparr>glog := glog s2 @
           [(ERROR, ''Failed to create output file: '' @ c_str output_urn @ ''.'' @ newline)]\<rparr>))
     else
     (case operator_arrow output of
        Inl f \<Rightarrow> Some (Inl f)
      | Inr oa \<Rightarrow>
     if \<not> oa < length (objects s2) then Some (Inl NullDereference)
     else
     (let (zip, s3) = NewZipFile e s2 (urn (snd (objects s2 ! oa)))
      in if operator_not zip then Some (Inr (IO_ERROR, s3))
     else
     (case operator_arrow zip of
        Inl f \<Rightarrow> Some (Inl f)
      | Inr za \<Rightarrow>
     if \<not> za < length (objects s3) then Some (Inl NullDereference)
     else
     (let zip_urn = urn (snd (objects s3 ! za));
          image_urn = Append e zip_urn (path (Parse e input_urn));
          (img, s4) = NewAFF4Image e s3 image_urn zip_urn
      in if operator_not img then Some (Inr (IO_ERROR, s4))
     else
     (case ImageStream_loop e input img buffer_size (objects s4) of
        None \<Rightarrow> None
      | Some (Inl f) \<Rightarrow> Some (Inl f)
      | Some (Inr hp) \<Rightarrow> Some (Inr (STATUS_OK, s4\<lparr>objects := hp\<rparr>)))))))))"

section \<open>The command line\<close>

text \<open>
  What \<open>cmd.parse(argc, argv)\<close> leaves behind: the switches \<open>view\<close>, \<open>verbose\<close> and
  \<open>truncate\<close> (\<open>isSet\<close>), the value arguments \<open>input\<close> and \<open>output\<close> (\<open>None\<close> when
  not set) and the unlabeled arguments \<open>filename\<close>. The switch \<open>truncate\<close> is the field
  \<open>truncate_arg\<close>.
\<close>

record options =
  view :: bool
  verbose :: bool
  truncate_arg :: bool
  input :: "string option"
  "output" :: "string option"
  filename :: "string list"

text \<open>
  The outcomes of \<open>cmd.parse\<close>. It fills the arguments; or it ends the process itself
  with \<open>exit\<close>: the command line library handles its own exceptions unless told not to,
  which \<open>parseOptions\<close> never does, so a malformed command line is reported by the
  library, which then exits with status 1 (and with status 0 after printing the help or
  the version); or, only with that handling switched off, it throws an \<open>ArgException\<close>
  to its caller, of which the handler prints \<open>error()\<close> and \<open>argId()\<close>.
\<close>

datatype cmd_parse = Parsed options | ArgException string string | Exited int

text \<open>What \<open>cout << i\<close> writes for an unsigned \<open>i\<close>: its decimal digits.\<close>

fun decimal :: "nat \<Rightarrow> string" where
  "decimal n =
     (if n < 10 then [char_of (48 + n)]
      else decimal (n div 10) @ [char_of (48 + n mod 10)])"

text \<open>
  The \<open>for\<close> loop over the unlabeled arguments: \<open>cout << i << "  " << v[i] << endl\<close>
  for \<open>i\<close> from 0. The vector holds fewer than \<open>argc\<close> entries and \<open>argc\<close> is an
  \<open>int\<close>, so the unsigned counter does not wrap.
\<close>

fun print_filenames :: "nat \<Rightarrow> string list \<Rightarrow> string" where
  "print_filenames i [] = []"
| "print_filenames i (f # fs) =
     decimal i @ ''  '' @ f @ newline @ print_filenames (Suc i) fs"

text \<open>
  \<open>parseOptions\<close>, from the outcome of \<open>cmd.parse\<close>. The local \<open>MemoryDataStore\<close> starts
  with an empty store and an empty cache. The result is the status and the state at the
  \<open>return\<close>.
\<close>

definition parseOptions :: "env \<Rightarrow> cmd_parse \<Rightarrow> state
                              \<Rightarrow> (fault + (AFF4Status \<times> state)) option" where
  "parseOptions e p s0 =
     (let s = s0\<lparr>store := Map.empty, ObjectCache := Map.empty\<rparr>
      in case p of
        ArgException err argId \<Rightarrow>
          Some (Inr (STATUS_OK,
                     s\<lparr>cout := cout s @ ''ERROR: '' @ err @ '' '' @ argId @ newline\<rparr>))
      | Exited n \<Rightarrow> Some (Inl (ProcessExit n))
      | Parsed opts \<Rightarrow>
          (let s1 = (if verbose opts then s\<lparr>stderrthreshold := INFO\<rparr> else s)
           in case input opts of
             Some i \<Rightarrow>
               (case output opts of
                  None \<Rightarrow>
                    Some (Inr (INVALID_INPUT,
                      s1\<lparr>cout := cout s1 @
                        ''ERROR: Can not specify an input without an output'' @ newline\<rparr>))
                | Some out \<Rightarrow>
                    (let output_urn = URN_of e out;
                         input_urn = URN_of e i;
                         s2 = (if truncate_arg opts then
                                 s1\<lparr>glog := glog s1 @
                                      [(INFO, ''Truncating output file: '' @ output_urn @ newline)],
                                    store := Set e (store s1) output_urn
                                               (AFF4_STREAM_WRITE_MODE e) ''truncate''\<rparr>
                               else
                                 s1\<lparr>store := Set e (store s1) output_urn
                                               (AFF4_STREAM_WRITE_MODE e) ''append''\<rparr>)
                     in ImageStream e s2 input_urn output_urn default_buffer_size))
           | None \<Rightarrow>
               Some (Inr (STATUS_OK,
                          s1\<lparr>cout := cout s1 @ print_filenames 0 (filename opts)\<rparr>))))"

text \<open>The state of the process when \<open>main\<close> starts.\<close>

definition initial_state :: state where
  "initial_state =
     \<lparr>store = Map.empty, ObjectCache = Map.empty, objects = [], glog = [],
      stderrthreshold = ERROR, cout = []\<rparr>"

text \<open>
  \<open>main\<close>: the stderr threshold is set to \<open>GLOG_ERROR\<close>, then the exit status is 0
  when \<open>parseOptions\<close> returns \<open>STATUS_OK\<close> and the integer value of the status
  otherwise.
\<close>

definition main :: "env \<Rightarrow> cmd_parse \<Rightarrow> (fault + (int \<times> state)) option" where
  "main e p =
     (case parseOptions e p (initial_state\<lparr>stderrthreshold := ERROR\<rparr>) of
        None \<Rightarrow> None
      | Some (Inl f) \<Rightarrow> Some (Inl f)
      | Some (Inr (res, s)) \<Rightarrow>
          Some (Inr (if res = STATUS_OK then 0 else status_value e res, s)))"

text \<open>
  The exit status of the process: what \<open>main\<close> returns, or what \<open>exit\<close> was called
  with. There is none when the process aborts or does not end.
\<close>

definition exit_status :: "(fault + (int \<times> state)) option \<Rightarrow> int option" where
  "exit_status r =
     (case r of
        Some (Inr (n, s)) \<Rightarrow> Some n
      | Some (Inl (ProcessExit n)) \<Rightarrow> Some n
      | Some (Inl CheckFailed) \<Rightarrow> None
      | Some (Inl NullDereference) \<Rightarrow> None
      | None \<Rightarrow> None)"

section \<open>Names for what the factory computes\<close>

text \<open>
  The declared type of a URN: the value \<open>Get\<close> leaves in \<open>type_urn\<close> when it returns
  \<open>STATUS_OK\<close> for the attribute \<open>AFF4_TYPE\<close>.
\<close>

definition declared_type :: "state \<Rightarrow> env \<Rightarrow> URN \<Rightarrow> string option" where
  "declared_type s e u =
     (case Get e (store s) u (AFF4_TYPE e) [] of
        (st, type_urn) \<Rightarrow> if st = STATUS_OK then Some type_urn else None)"

text \<open>The name the class registry is asked for: the declared type, else the scheme.\<close>

definition registry_key :: "state \<Rightarrow> env \<Rightarrow> URN \<Rightarrow> string" where
  "registry_key s e u =
     (case declared_type s e u of Some t \<Rightarrow> t | None \<Rightarrow> scheme (Parse e u))"

text \<open>A caller opening one URN after another; it stops at the first fault.\<close>

fun opens :: "env \<Rightarrow> (class_name \<times> URN) list \<Rightarrow> state \<Rightarrow> fault + state" where
  "opens e [] s = Inr s"
| "opens e ((T, u) # rest) s =
     (case AFF4FactoryOpen e T u s of
        Inl f \<Rightarrow> Inl f
      | Inr (h, s') \<Rightarrow> opens e rest s')"

section \<open>An environment to run the code in\<close>

text \<open>
  One instance of the library, used to evaluate the code on concrete inputs. Its triple
  store is the \<open>unordered_map\<close> of \<open>MemoryDataStore\<close>: a lookup that misses leaves the
  reference parameter alone. Its URNs have the scheme before the first colon. Bare paths
  and \<open>file\<close> URNs are backed by a file object, which fails to load for one URN. Every
  class reads and writes as the contract of a stream says.
\<close>

definition example_Get :: "(string \<rightharpoonup> AFF4_Attributes) \<Rightarrow> URN \<Rightarrow> URN \<Rightarrow> RDFValue
                             \<Rightarrow> AFF4Status \<times> RDFValue" where
  "example_Get st subject attribute val =
     (case st subject of
        None \<Rightarrow> (NOT_FOUND, val)
      | Some attrs \<Rightarrow>
          (case attrs attribute of
             None \<Rightarrow> (NOT_FOUND, val)
           | Some v \<Rightarrow> (STATUS_OK, v)))"

definition example_Set :: "(string \<rightharpoonup> AFF4_Attributes) \<Rightarrow> URN \<Rightarrow> URN \<Rightarrow> RDFValue
                             \<Rightarrow> (string \<rightharpoonup> AFF4_Attributes)" where
  "example_Set st subject attribute val =
     st(subject \<mapsto> (case st subject of None \<Rightarrow> Map.empty | Some attrs \<Rightarrow> attrs)
                        (attribute \<mapsto> val))"

definition example_Parse :: "URN \<Rightarrow> uri_components" where
  "example_Parse u =
     (if CHR '':'' \<in> set u
      then \<lparr>scheme = takeWhile (\<lambda>c. c \<noteq> CHR '':'') u,
            path = drop 1 (dropWhile (\<lambda>c. c \<noteq> CHR '':'') u)\<rparr>
      else \<lparr>scheme = [], path = u\<rparr>)"

definition example_env :: env where
  "example_env =
     \<lparr>AFF4_TYPE = ''rdf:type'',
      AFF4_STREAM_WRITE_MODE = ''aff4:write_mode'',
      status_value = (\<lambda>st. case st of STATUS_OK \<Rightarrow> 0 | NOT_FOUND \<Rightarrow> - 1 | IO_ERROR \<Rightarrow> - 2
                              | INVALID_INPUT \<Rightarrow> - 3 | PARSING_ERROR \<Rightarrow> - 4),
      Get = example_Get,
      Set = example_Set,
      URN_of = (\<lambda>x. x),
      Parse = example_Parse,
      Append = (\<lambda>u p. u @ ''/'' @ p),
      CreateInstance = (\<lambda>name.
         if name = ''file'' \<or> name = [] then
           Some (''FileBackedObject'', \<lparr>urn = [], contents = [], readptr = 0\<rparr>)
         else if name = ''aff4:zip_volume'' then
           Some (''ZipFile'', \<lparr>urn = [], contents = [], readptr = 0\<rparr>)
         else None),
      is_a = (\<lambda>c T. T = ''AFF4Object'' \<or> c = T
                \<or> (T = ''AFF4Stream'' \<and> c = ''FileBackedObject'')
                \<or> (T = ''AFF4Volume'' \<and> c = ''ZipFile'')),
      LoadFromURN = (\<lambda>c st obj.
         if urn obj = ''file:///missing'' then (IO_ERROR, obj, st) else (STATUS_OK, obj, st)),
      Prepare = (\<lambda>c obj. obj\<lparr>readptr := 0\<rparr>),
      Read = (\<lambda>c. stream_Read),
      Write = (\<lambda>c obj d. (STATUS_OK, stream_Write obj d)),
      NewZipFile = (\<lambda>s u. (AFF4ScopedPtr_default, s)),
      NewAFF4Image = (\<lambda>s u v. (AFF4ScopedPtr_default, s))\<rparr>"

text \<open>A resolver whose triple store declares the type of one URN.\<close>

definition example_typed_state :: state where
  "example_typed_state =
     initial_state\<lparr>store := [''aff4://vol'' \<mapsto> [''rdf:type'' \<mapsto> ''aff4:zip_volume'']]\<rparr>"

text \<open>
  An environment in which imaging runs to its end: the file \<open>/tmp/in\<close> holds twelve
  bytes, \<open>NewZipFile\<close> allocates and caches a volume, and \<open>NewAFF4Image\<close> allocates and
  caches an empty image stream under the URN it is given.
\<close>

definition imaging_env :: env where
  "imaging_env =
     example_env\<lparr>
       LoadFromURN := (\<lambda>c st obj.
         if urn obj = ''/tmp/in'' then (STATUS_OK, obj\<lparr>contents := ''Hello world!''\<rparr>, st)
         else (STATUS_OK, obj, st)),
       NewZipFile := (\<lambda>s u.
         (\<lparr>ptr = Some (length (objects s)), resolver = True\<rparr>,
          s\<lparr>objects := objects s @
                 [(''ZipFile'', \<lparr>urn = ''aff4://volume'', contents = [], readptr = 0\<rparr>)],
            ObjectCache := (ObjectCache s)(''aff4://volume'' \<mapsto> length (objects s))\<rparr>)),
       NewAFF4Image := (\<lambda>s image_urn volume_urn.
         (\<lparr>ptr = Some (length (objects s)), resolver = True\<rparr>,
          s\<lparr>objects := objects s @
                 [(''AFF4Image'', \<lparr>urn = image_urn, contents = [], readptr = 0\<rparr>)],
            ObjectCache := (ObjectCache s)(image_urn \<mapsto> length (objects s))\<rparr>))\<rparr>"

text \<open>The same environment with an output that cannot be written: every write fails.\<close>

definition failing_write_env :: env where
  "failing_write_env = imaging_env\<lparr>Write := (\<lambda>c obj d. (IO_ERROR, obj))\<rparr>"

text \<open>The command line \<open>--in /tmp/in --out /tmp/out.zip --truncate\<close>.\<close>

definition imaging_options :: options where
  "imaging_options =
     \<lparr>view = False, verbose = False, truncate_arg = True, input = Some ''/tmp/in'',
      output = Some ''/tmp/out.zip'', filename = []\<rparr>"

text \<open>
  The states that imaging this command line goes through in the imaging environment: the
  state in which \<open>parseOptions\<close> calls \<open>ImageStream\<close>, and the states after the input is
  opened, after the output is opened, after the volume is created and after the image
  stream is created.
\<close>

definition imaging_start :: state where
  "imaging_start =
     initial_state\<lparr>
       store := [''/tmp/out.zip'' \<mapsto> [''aff4:write_mode'' \<mapsto> ''truncate'']],
       glog := [(INFO, ''Truncating output file: /tmp/out.zip'' @ newline)]\<rparr>"

definition imaging_input :: "class_name \<times> AFF4Object" where
  "imaging_input =
     (''FileBackedObject'', \<lparr>urn = ''/tmp/in'', contents = ''Hello world!'', readptr = 0\<rparr>)"

definition imaging_output :: "class_name \<times> AFF4Object" where
  "imaging_output =
     (''FileBackedObject'', \<lparr>urn = ''/tmp/out.zip'', contents = [], readptr = 0\<rparr>)"

definition imaging_volume :: "class_name \<times> AFF4Object" where
  "imaging_volume = (''ZipFile'', \<lparr>urn = ''aff4://volume'', contents = [], readptr = 0\<rparr>)"

definition imaging_image :: "class_name \<times> AFF4Object" where
  "imaging_image =
     (''AFF4Image'', \<lparr>urn = ''aff4://volume//tmp/in'', contents = [], readptr = 0\<rparr>)"

definition imaging_opened_input :: state where
  "imaging_opened_input =
     imaging_start\<lparr>objects := [imaging_input], ObjectCache := [''/tmp/in'' \<mapsto> 0]\<rparr>"

definition imaging_opened_both :: state where
  "imaging_opened_both =
     imaging_start\<lparr>objects := [imaging_input, imaging_output],
       ObjectCache := [''/tmp/in'' \<mapsto> 0, ''/tmp/out.zip'' \<mapsto> 1]\<rparr>"

definition imaging_with_volume :: state where
  "imaging_with_volume =
     imaging_start\<lparr>objects := [imaging_input, imaging_output, imaging_volume],
       ObjectCache := [''/tmp/in'' \<mapsto> 0, ''/tmp/out.zip'' \<mapsto> 1,
                       ''aff4://volume'' \<mapsto> 2]\<rparr>"

definition imaging_ready :: state where
  "imaging_ready =
     imaging_start\<lparr>
       objects := [imaging_input, imaging_output, imaging_volume, imaging_image],
       ObjectCache :=
         [''/tmp/in'' \<mapsto> 0, ''/tmp/out.zip'' \<mapsto> 1, ''aff4://volume'' \<mapsto> 2,
          ''aff4://volume//tmp/in'' \<mapsto> 3]\<rparr>"

section \<open>The factory, case by case\<close>

lemma open_hit:
  assumes "ObjectCache s u = Some a" and "a < length (objects s)"
  shows "AFF4FactoryOpen e T u s =
           Inr (\<lparr>ptr = (if is_a e (fst (objects s ! a)) T then Some a else None),
                 resolver = True\<rparr>,
                s\<lparr>objects := (objects s)[a := (fst (objects s ! a),
                     Prepare e (fst (objects s ! a)) (snd (objects s ! a)))]\<rparr>)"
  using assms by (simp add: AFF4FactoryOpen_def AFF4ScopedPtr_new_def split: prod.splits)

lemma open_dangling:
  assumes "ObjectCache s u = Some a" and "\<not> a < length (objects s)"
  shows "AFF4FactoryOpen e T u s = Inl NullDereference"
  using assms by (simp add: AFF4FactoryOpen_def)

lemma open_miss:
  assumes "ObjectCache s u = None"
  shows "AFF4FactoryOpen e T u s =
           (case CreateInstance e (registry_key s e u) of
              None \<Rightarrow> Inr (AFF4ScopedPtr_default, s)
            | Some (c, obj) \<Rightarrow>
                (case LoadFromURN e c (store s) (obj\<lparr>urn := u\<rparr>) of
                   (st2, obj', store') \<Rightarrow>
                     if st2 \<noteq> STATUS_OK then
                       Inr (AFF4ScopedPtr_default,
                            s\<lparr>store := store',
                              glog := glog s @
                                [(WARNING, load_warning u
                                   (snd (Get e (store s) u (AFF4_TYPE e) [])))]\<rparr>)
                     else
                       Inr (\<lparr>ptr = (if is_a e c T then Some (length (objects s)) else None),
                             resolver = True\<rparr>,
                            s\<lparr>store := store',
                              objects := objects s @ [(c, obj')],
                              ObjectCache := (ObjectCache s)(u \<mapsto> length (objects s))\<rparr>)))"
proof -
  obtain st ty where g: "Get e (store s) u (AFF4_TYPE e) [] = (st, ty)"
    by (cases "Get e (store s) u (AFF4_TYPE e) []")
  show ?thesis
  proof (cases "st = STATUS_OK")
    case True
    with g have "registry_key s e u = ty"
      by (simp add: registry_key_def declared_type_def)
    with assms g True show ?thesis
      by (simp add: AFF4FactoryOpen_def AFF4ScopedPtr_new_def Let_def
          split: option.splits prod.splits)
  next
    case False
    with g have "registry_key s e u = scheme (Parse e u)"
      by (simp add: registry_key_def declared_type_def)
    with assms g False show ?thesis
      by (simp add: AFF4FactoryOpen_def AFF4ScopedPtr_new_def Let_def
          split: option.splits prod.splits)
  qed
qed

lemma open_unknown:
  assumes "ObjectCache s u = None" and "CreateInstance e (registry_key s e u) = None"
  shows "AFF4FactoryOpen e T u s = Inr (AFF4ScopedPtr_default, s)"
  using assms(2) by (simp add: open_miss[OF assms(1)])

lemma open_load_failed:
  assumes "ObjectCache s u = None"
    and "CreateInstance e (registry_key s e u) = Some (c, obj)"
    and "LoadFromURN e c (store s) (obj\<lparr>urn := u\<rparr>) = (st2, obj', store')"
    and "st2 \<noteq> STATUS_OK"
  shows "AFF4FactoryOpen e T u s =
           Inr (AFF4ScopedPtr_default,
                s\<lparr>store := store',
                  glog := glog s @
                    [(WARNING, load_warning u (snd (Get e (store s) u (AFF4_TYPE e) [])))]\<rparr>)"
  using assms(2,3,4) by (simp add: open_miss[OF assms(1)])

lemma open_loaded:
  assumes "ObjectCache s u = None"
    and "CreateInstance e (registry_key s e u) = Some (c, obj)"
    and "LoadFromURN e c (store s) (obj\<lparr>urn := u\<rparr>) = (STATUS_OK, obj', store')"
  shows "AFF4FactoryOpen e T u s =
           Inr (\<lparr>ptr = (if is_a e c T then Some (length (objects s)) else None),
                 resolver = True\<rparr>,
                s\<lparr>store := store',
                  objects := objects s @ [(c, obj')],
                  ObjectCache := (ObjectCache s)(u \<mapsto> length (objects s))\<rparr>)"
  using assms(2,3) by (simp add: open_miss[OF assms(1)])

lemma declared_type_Get:
  "declared_type s e u = Some t \<Longrightarrow> snd (Get e (store s) u (AFF4_TYPE e) []) = t"
  by (auto simp: declared_type_def split: prod.splits if_splits)

lemma open_post:
  assumes "AFF4FactoryOpen e T u s = Inr (h, s')"
  shows "case ObjectCache s' u of
           None \<Rightarrow> ptr h = None
         | Some a \<Rightarrow> a < length (objects s')
                     \<and> ptr h = (if is_a e (fst (objects s' ! a)) T then Some a else None)"
proof (cases "ObjectCache s u")
  case (Some a)
  show ?thesis
  proof (cases "a < length (objects s)")
    case True
    from open_hit[OF Some True, of e T] assms show ?thesis
      using Some True by auto
  next
    case False
    from open_dangling[OF Some False, of e T] assms show ?thesis by simp
  qed
next
  case None
  show ?thesis
  proof (cases "CreateInstance e (registry_key s e u)")
    case N: None
    from open_unknown[OF None N, of T] assms show ?thesis
      using None by (auto simp: AFF4ScopedPtr_default_def)
  next
    case (Some p)
    obtain c obj where p: "p = (c, obj)" by (cases p)
    obtain st2 obj' store' where
      l: "LoadFromURN e c (store s) (obj\<lparr>urn := u\<rparr>) = (st2, obj', store')"
      by (cases "LoadFromURN e c (store s) (obj\<lparr>urn := u\<rparr>)")
    show ?thesis
    proof (cases "st2 = STATUS_OK")
      case True
      from open_loaded[OF None Some[unfolded p] l[unfolded True], of T] assms
      show ?thesis by auto
    next
      case False
      from open_load_failed[OF None Some[unfolded p] l False, of T] assms
      show ?thesis using None by (auto simp: AFF4ScopedPtr_default_def)
    qed
  qed
qed

text \<open>An open of any URN leaves every cached object cached, at its address, in its class.\<close>

lemma open_preserves:
  assumes "AFF4FactoryOpen e T' u' s = Inr (h, s')"
    and "ObjectCache s u = Some a" and "a < length (objects s)"
  shows "ObjectCache s' u = Some a \<and> a < length (objects s')
         \<and> fst (objects s' ! a) = fst (objects s ! a)"
proof (cases "ObjectCache s u'")
  case (Some a')
  show ?thesis
  proof (cases "a' < length (objects s)")
    case True
    from open_hit[OF Some True, of e T'] assms show ?thesis
      by (cases "a = a'") auto
  next
    case False
    from open_dangling[OF Some False, of e T'] assms show ?thesis by simp
  qed
next
  case None
  then have ne: "u' \<noteq> u" using assms(2) by auto
  show ?thesis
  proof (cases "CreateInstance e (registry_key s e u')")
    case N: None
    from open_unknown[OF None N, of T'] assms show ?thesis by auto
  next
    case (Some p)
    obtain c obj where p: "p = (c, obj)" by (cases p)
    obtain st2 obj' store' where
      l: "LoadFromURN e c (store s) (obj\<lparr>urn := u'\<rparr>) = (st2, obj', store')"
      by (cases "LoadFromURN e c (store s) (obj\<lparr>urn := u'\<rparr>)")
    show ?thesis
    proof (cases "st2 = STATUS_OK")
      case True
      from open_loaded[OF None Some[unfolded p] l[unfolded True], of T'] assms ne
      show ?thesis by (auto simp: nth_append)
    next
      case False
      from open_load_failed[OF None Some[unfolded p] l False, of T'] assms
      show ?thesis by auto
    qed
  qed
qed

lemma opens_preserve:
  assumes "opens e ops s = Inr s'"
    and "ObjectCache s u = Some a" and "a < length (objects s)"
  shows "ObjectCache s' u = Some a \<and> a < length (objects s')
         \<and> fst (objects s' ! a) = fst (objects s ! a)"
  using assms
proof (induction ops arbitrary: s)
  case Nil
  then show ?case by simp
next
  case (Cons op ops)
  obtain T' u' where op: "op = (T', u')" by (cases op)
  from Cons.prems(1) obtain h s1 where
    o: "AFF4FactoryOpen e T' u' s = Inr (h, s1)" and r: "opens e ops s1 = Inr s'"
    by (auto simp: op split: sum.splits)
  from open_preserves[OF o Cons.prems(2,3)]
  have k: "ObjectCache s1 u = Some a" "a < length (objects s1)"
    "fst (objects s1 ! a) = fst (objects s ! a)"
    by simp_all
  from Cons.IH[OF r k(1,2)] k(3) show ?case by simp
qed

section \<open>The imaging loop, step by step\<close>

lemma chunks_step:
  "0 < n \<Longrightarrow> xs \<noteq> [] \<Longrightarrow> chunks n xs = take n xs # chunks n (drop n xs)"
  by (subst chunks.simps) simp

lemma chunks_Nil: "chunks n [] = []"
  by simp

lemma concat_chunks: "0 < n \<Longrightarrow> concat (chunks n xs) = xs"
proof (induction n xs rule: chunks.induct)
  case (1 n xs)
  show ?case
  proof (cases "xs = []")
    case True
    then show ?thesis by simp
  next
    case False
    with 1 have "concat (chunks n (drop n xs)) = drop n xs" by simp
    with False 1(2) show ?thesis by (simp add: chunks_step del: chunks.simps)
  qed
qed

lemma chunks_single:
  assumes "xs \<noteq> []" and "length xs \<le> n"
  shows "chunks n xs = [xs]"
proof -
  have "0 < length xs" using assms(1) by simp
  then have "0 < n" using assms(2) by arith
  from chunks_step[OF this assms(1)] assms(2) show ?thesis
    by (simp add: chunks_Nil del: chunks.simps)
qed

lemma foldl_stream_Write:
  "foldl (\<lambda>obj d. snd (STATUS_OK, stream_Write obj d)) obj ds
     = obj\<lparr>contents := contents obj @ concat ds\<rparr>"
  by (induction ds arbitrary: obj) (simp_all add: stream_Write_def)

lemma loop_step_end:
  assumes "ptr inp = Some i" and "i < length hp"
    and "fst (Read e (fst (hp ! i)) (snd (hp ! i)) (unat buffer_size)) = []"
  shows "ImageStream_loop e inp img buffer_size hp =
           Some (Inr (hp[i := (fst (hp ! i),
                   snd (Read e (fst (hp ! i)) (snd (hp ! i)) (unat buffer_size)))]))"
  using assms by (subst ImageStream_loop.simps) (simp add: operator_arrow_def)

lemma loop_step_more:
  assumes "ptr inp = Some i" and "i < length hp"
    and "ptr img = Some j" and "j < length hp"
    and "fst (Read e (fst (hp ! i)) (snd (hp ! i)) (unat buffer_size)) = data"
    and "data \<noteq> []"
    and "hp[i := (fst (hp ! i),
                  snd (Read e (fst (hp ! i)) (snd (hp ! i)) (unat buffer_size)))] = hp1"
  shows "ImageStream_loop e inp img buffer_size hp =
           ImageStream_loop e inp img buffer_size
             (hp1[j := (fst (hp1 ! j), snd (Write e (fst (hp1 ! j)) (snd (hp1 ! j)) data))])"
  using assms by (subst ImageStream_loop.simps) (auto simp: operator_arrow_def Let_def)

text \<open>
  The loop ends when the input reads as the contract says, whatever the writes do: the
  image object has then been handed the chunks of the rest of the input, in order.
\<close>

lemma loop_writes_chunks:
  assumes "ptr inp = Some i" and "ptr img = Some j" and "i \<noteq> j"
    and "i < length hp" and "j < length hp" and "buffer_size \<noteq> 0"
    and "Read e (fst (hp ! i)) = stream_Read"
    and "fst (hp ! j) = cj"
  shows "\<exists>hp'. ImageStream_loop e inp img buffer_size hp = Some (Inr hp')
           \<and> length hp' = length hp
           \<and> hp' ! j = (cj, foldl (\<lambda>obj d. snd (Write e cj obj d)) (snd (hp ! j))
                 (chunks (unat buffer_size)
                    (drop (readptr (snd (hp ! i))) (contents (snd (hp ! i))))))
           \<and> fst (hp' ! i) = fst (hp ! i)
           \<and> contents (snd (hp' ! i)) = contents (snd (hp ! i))"
  using assms(4,5,7,8)
proof (induction "length (contents (snd (hp ! i))) - readptr (snd (hp ! i))"
       arbitrary: hp rule: less_induct)
  case less
  let ?n = "unat buffer_size"
  let ?obj = "snd (hp ! i)"
  let ?rest = "drop (readptr ?obj) (contents ?obj)"
  let ?data = "take ?n ?rest"
  let ?obj' = "?obj\<lparr>readptr := readptr ?obj + length ?data\<rparr>"
  let ?hp1 = "hp[i := (fst (hp ! i), ?obj')]"
  let ?W = "\<lambda>obj d. snd (Write e cj obj d)"
  have rd: "Read e (fst (hp ! i)) ?obj ?n = (?data, ?obj')"
    by (simp add: less.prems(3) stream_Read_def Let_def)
  have npos: "0 < ?n" using assms(6) by (simp add: unat_gt_0)
  show ?case
  proof (cases "?data = []")
    case True
    then have "length (contents ?obj) \<le> readptr ?obj"
      using npos by auto
    then have d: "?rest = []" by simp
    have "ImageStream_loop e inp img buffer_size hp = Some (Inr ?hp1)"
      using loop_step_end[OF assms(1) less.prems(1), of e buffer_size img] True
      by (simp only: rd fst_conv snd_conv)
    moreover have "?hp1 ! j = (cj, snd (hp ! j))"
      using assms(3) less.prems(4) by (simp add: prod_eq_iff)
    moreover have "fst (?hp1 ! i) = fst (hp ! i)"
      "contents (snd (?hp1 ! i)) = contents (snd (hp ! i))"
      using less.prems(1) by simp_all
    ultimately show ?thesis by (simp only: d chunks_Nil) simp
  next
    case False
    let ?hp2 = "?hp1[j := (cj, ?W (snd (hp ! j)) ?data)]"
    have f1: "fst (Read e (fst (hp ! i)) ?obj ?n) = ?data" by (simp only: rd fst_conv)
    have h1: "hp[i := (fst (hp ! i), snd (Read e (fst (hp ! i)) ?obj ?n))] = ?hp1"
      by (simp only: rd snd_conv)
    have w: "(fst (?hp1 ! j), snd (Write e (fst (?hp1 ! j)) (snd (?hp1 ! j)) ?data))
               = (cj, ?W (snd (hp ! j)) ?data)"
      using assms(3) less.prems(4) by simp
    have step: "ImageStream_loop e inp img buffer_size hp =
                ImageStream_loop e inp img buffer_size ?hp2"
      using loop_step_more[OF assms(1) less.prems(1) assms(2) less.prems(2) f1 False h1]
      by (simp only: w)
    have i2: "?hp2 ! i = (fst (hp ! i), ?obj')"
      using assms(3) less.prems by simp
    have j2: "?hp2 ! j = (cj, ?W (snd (hp ! j)) ?data)"
      using assms(3) less.prems by simp
    have c2: "contents (snd (?hp2 ! i)) = contents ?obj"
      by (simp only: i2) simp
    have r2: "readptr (snd (?hp2 ! i)) = readptr ?obj + length ?data"
      by (simp only: i2) simp
    have lt: "readptr ?obj < length (contents ?obj)"
      using False by (cases "readptr ?obj < length (contents ?obj)") auto
    have dpos: "0 < length ?data" using False by (rule iffD2[OF length_greater_0_conv])
    have dle: "length ?data \<le> length (contents ?obj) - readptr ?obj"
      by simp
    have meas: "length (contents (snd (?hp2 ! i))) - readptr (snd (?hp2 ! i))
                < length (contents ?obj) - readptr ?obj"
      using lt dpos dle unfolding c2 r2 by arith
    have len2: "i < length ?hp2" "j < length ?hp2" using less.prems by simp_all
    have cls: "Read e (fst (?hp2 ! i)) = stream_Read" "fst (?hp2 ! j) = cj"
      using less.prems(3) by (simp_all only: i2 j2 fst_conv)
    from less.hyps[OF meas len2 cls]
    obtain hp' where h: "ImageStream_loop e inp img buffer_size ?hp2 = Some (Inr hp')"
      "length hp' = length ?hp2"
      "hp' ! j = (cj, foldl ?W (snd (?hp2 ! j))
          (chunks ?n (drop (readptr (snd (?hp2 ! i))) (contents (snd (?hp2 ! i))))))"
      "fst (hp' ! i) = fst (?hp2 ! i)"
      "contents (snd (hp' ! i)) = contents (snd (?hp2 ! i))"
      by blast
    have rest2: "drop (readptr ?obj + length ?data) (contents ?obj) = drop ?n ?rest"
      by (simp add: min_def add.commute)
    have nonempty: "?rest \<noteq> []" using lt by simp
    have ch: "chunks ?n ?rest = ?data # chunks ?n (drop ?n ?rest)"
      using chunks_step[OF npos nonempty] .
    have "hp' ! j = (cj, foldl ?W (?W (snd (hp ! j)) ?data) (chunks ?n (drop ?n ?rest)))"
      using h(3) unfolding c2 r2 rest2 by (simp only: j2 snd_conv)
    also have "\<dots> = (cj, foldl ?W (snd (hp ! j)) (chunks ?n ?rest))"
      by (simp only: ch foldl_Cons)
    finally have J: "hp' ! j = (cj, foldl ?W (snd (hp ! j)) (chunks ?n ?rest))" .
    have L: "length hp' = length hp" using h(2) by simp
    have I1: "fst (hp' ! i) = fst (hp ! i)" using h(4) by (simp only: i2 fst_conv)
    have I2: "contents (snd (hp' ! i)) = contents ?obj" using h(5) c2 by simp
    from h(1) step L J I1 I2 show ?thesis by simp
  qed
qed

text \<open>
  A run of \<open>ImageStream\<close> in which everything opens: it returns \<open>STATUS_OK\<close> whatever the
  writes return.
\<close>

lemma ImageStream_runs:
  assumes o1: "AFF4FactoryOpen e ''AFF4Stream'' input_urn s = Inr (inp, s1)"
    and o2: "AFF4FactoryOpen e ''AFF4Stream'' output_urn s1 = Inr (outp, s2)"
    and pi: "ptr inp = Some i" and po: "ptr outp = Some oa"
    and z: "NewZipFile e s2 (urn (snd (objects s2 ! oa))) = (zp, s3)"
    and pz: "ptr zp = Some za" and lz: "za < length (objects s3)"
    and im: "NewAFF4Image e s3
               (Append e (urn (snd (objects s3 ! za))) (path (Parse e input_urn)))
               (urn (snd (objects s3 ! za))) = (img, s4)"
    and pj: "ptr img = Some j"
    and li: "i < length (objects s4)" and lj: "j < length (objects s4)" and ne: "i \<noteq> j"
    and bs: "buffer_size \<noteq> 0"
    and rd: "Read e (fst (objects s4 ! i)) = stream_Read"
  shows "\<exists>hp'. ImageStream e s input_urn output_urn buffer_size
                 = Some (Inr (STATUS_OK, s4\<lparr>objects := hp'\<rparr>))
           \<and> length hp' = length (objects s4)
           \<and> hp' ! j = (fst (objects s4 ! j),
                 foldl (\<lambda>obj d. snd (Write e (fst (objects s4 ! j)) obj d))
                   (snd (objects s4 ! j))
                   (chunks (unat buffer_size)
                      (drop (readptr (snd (objects s4 ! i))) (contents (snd (objects s4 ! i))))))
           \<and> contents (snd (hp' ! i)) = contents (snd (objects s4 ! i))"
proof -
  from open_post[OF o2] po have loa: "oa < length (objects s2)"
    by (auto split: option.splits if_splits)
  from loop_writes_chunks[OF pi pj ne li lj bs rd refl]
  obtain hp' where h: "ImageStream_loop e inp img buffer_size (objects s4) = Some (Inr hp')"
    "length hp' = length (objects s4)"
    "hp' ! j = (fst (objects s4 ! j),
        foldl (\<lambda>obj d. snd (Write e (fst (objects s4 ! j)) obj d)) (snd (objects s4 ! j))
          (chunks (unat buffer_size)
             (drop (readptr (snd (objects s4 ! i))) (contents (snd (objects s4 ! i))))))"
    "contents (snd (hp' ! i)) = contents (snd (objects s4 ! i))"
    by blast
  have "ImageStream e s input_urn output_urn buffer_size
          = Some (Inr (STATUS_OK, s4\<lparr>objects := hp'\<rparr>))"
    using o1 o2 pi po z pz lz im pj loa h(1)
    by (simp add: ImageStream_def operator_not_def operator_arrow_def)
  with h(2,3,4) show ?thesis by blast
qed

section \<open>Imaging a file from the command line\<close>

text \<open>The set-up of the imager in the imaging environment, whatever its writes do.\<close>

lemma imaging_prepared:
  shows "AFF4FactoryOpen (imaging_env\<lparr>Write := W\<rparr>) ''AFF4Stream'' ''/tmp/in'' imaging_start
       = Inr (\<lparr>ptr = Some 0, resolver = True\<rparr>, imaging_opened_input)"
    and "AFF4FactoryOpen (imaging_env\<lparr>Write := W\<rparr>) ''AFF4Stream'' ''/tmp/out.zip''
           imaging_opened_input
       = Inr (\<lparr>ptr = Some 1, resolver = True\<rparr>, imaging_opened_both)"
    and "NewZipFile (imaging_env\<lparr>Write := W\<rparr>) imaging_opened_both
           (urn (snd (objects imaging_opened_both ! 1)))
       = (\<lparr>ptr = Some 2, resolver = True\<rparr>, imaging_with_volume)"
    and "NewAFF4Image (imaging_env\<lparr>Write := W\<rparr>) imaging_with_volume
           (Append (imaging_env\<lparr>Write := W\<rparr>) (urn (snd (objects imaging_with_volume ! 2)))
              (path (Parse (imaging_env\<lparr>Write := W\<rparr>) ''/tmp/in'')))
           (urn (snd (objects imaging_with_volume ! 2)))
       = (\<lparr>ptr = Some 3, resolver = True\<rparr>, imaging_ready)"
proof -
  show "AFF4FactoryOpen (imaging_env\<lparr>Write := W\<rparr>) ''AFF4Stream'' ''/tmp/in'' imaging_start
       = Inr (\<lparr>ptr = Some 0, resolver = True\<rparr>, imaging_opened_input)"
    by (simp add: AFF4FactoryOpen_def imaging_env_def example_env_def example_Parse_def
        example_Get_def imaging_start_def imaging_opened_input_def imaging_input_def
        initial_state_def AFF4ScopedPtr_new_def Let_def)
  show "AFF4FactoryOpen (imaging_env\<lparr>Write := W\<rparr>) ''AFF4Stream'' ''/tmp/out.zip''
           imaging_opened_input
       = Inr (\<lparr>ptr = Some 1, resolver = True\<rparr>, imaging_opened_both)"
    by (simp add: AFF4FactoryOpen_def imaging_env_def example_env_def example_Parse_def
        example_Get_def imaging_start_def imaging_opened_input_def imaging_opened_both_def
        imaging_input_def imaging_output_def
        initial_state_def AFF4ScopedPtr_new_def Let_def)
  show "NewZipFile (imaging_env\<lparr>Write := W\<rparr>) imaging_opened_both
           (urn (snd (objects imaging_opened_both ! 1)))
       = (\<lparr>ptr = Some 2, resolver = True\<rparr>, imaging_with_volume)"
    by (simp add: imaging_env_def example_env_def imaging_start_def initial_state_def
        imaging_opened_both_def imaging_with_volume_def imaging_volume_def numeral_2_eq_2)
  show "NewAFF4Image (imaging_env\<lparr>Write := W\<rparr>) imaging_with_volume
           (Append (imaging_env\<lparr>Write := W\<rparr>) (urn (snd (objects imaging_with_volume ! 2)))
              (path (Parse (imaging_env\<lparr>Write := W\<rparr>) ''/tmp/in'')))
           (urn (snd (objects imaging_with_volume ! 2)))
       = (\<lparr>ptr = Some 3, resolver = True\<rparr>, imaging_ready)"
    by (simp add: imaging_env_def example_env_def example_Parse_def imaging_start_def
        imaging_with_volume_def imaging_volume_def imaging_image_def
        imaging_ready_def initial_state_def numeral_2_eq_2 numeral_3_eq_3)
qed

lemma imaging_ready_objects:
  "objects imaging_ready = [imaging_input, imaging_output, imaging_volume, imaging_image]"
  "length (objects imaging_with_volume) = 3"
  by (simp_all add: imaging_ready_def imaging_with_volume_def)

lemma imaging_env_fields:
  "URN_of (imaging_env\<lparr>Write := W\<rparr>) = (\<lambda>x. x)"
  "Set (imaging_env\<lparr>Write := W\<rparr>) = example_Set"
  "AFF4_STREAM_WRITE_MODE (imaging_env\<lparr>Write := W\<rparr>) = ''aff4:write_mode''"
  "Read (imaging_env\<lparr>Write := W\<rparr>) c = stream_Read"
  "status_value (imaging_env\<lparr>Write := W\<rparr>) STATUS_OK = 0"
  by (simp_all add: imaging_env_def example_env_def)

lemma parse_imaging:
  "parseOptions (imaging_env\<lparr>Write := W\<rparr>) (Parsed imaging_options)
     (initial_state\<lparr>stderrthreshold := ERROR\<rparr>)
   = ImageStream (imaging_env\<lparr>Write := W\<rparr>) imaging_start ''/tmp/in'' ''/tmp/out.zip''
       default_buffer_size"
  by (simp add: parseOptions_def imaging_options_def imaging_env_fields
      example_Set_def imaging_start_def initial_state_def newline_def Let_def)

lemma foldl_failed_writes:
  "foldl (\<lambda>obj d. snd (IO_ERROR, obj)) obj ds = obj"
  by (induction ds) simp_all

lemma imaging_exit_status:
  "\<exists>hp'. main (imaging_env\<lparr>Write := W\<rparr>) (Parsed imaging_options)
           = Some (Inr (0, imaging_ready\<lparr>objects := hp'\<rparr>))
     \<and> length hp' = 4
     \<and> hp' ! 3 =
          (''AFF4Image'',
           foldl (\<lambda>obj d. snd (W ''AFF4Image'' obj d)) (snd imaging_image)
             (chunks (unat default_buffer_size) ''Hello world!''))"
proof -
  let ?e = "imaging_env\<lparr>Write := W\<rparr>"
  note p = imaging_prepared[of W]
  have p0: "ptr \<lparr>ptr = Some 0, resolver = True\<rparr> = Some 0"
    and p1: "ptr \<lparr>ptr = Some 1, resolver = True\<rparr> = Some 1"
    and p2: "ptr \<lparr>ptr = Some 2, resolver = True\<rparr> = Some 2"
    and p3: "ptr \<lparr>ptr = Some 3, resolver = True\<rparr> = Some 3"
    by simp_all
  have lz: "2 < length (objects imaging_with_volume)"
    by (simp add: imaging_ready_objects)
  have li: "0 < length (objects imaging_ready)" and lj: "3 < length (objects imaging_ready)"
    by (simp_all add: imaging_ready_objects)
  have ne: "(0::nat) \<noteq> 3" by simp
  have bs: "default_buffer_size \<noteq> 0" by (simp add: default_buffer_size_def)
  have rd: "Read ?e (fst (objects imaging_ready ! 0)) = stream_Read"
    by (rule imaging_env_fields)
  have wr: "Write ?e = W" by simp
  have i0: "objects imaging_ready ! 0 = imaging_input"
    and i3: "objects imaging_ready ! 3 = imaging_image"
    and len: "length (objects imaging_ready) = 4"
    by (simp_all add: imaging_ready_objects)
  have rp: "readptr (snd imaging_input) = 0"
    and ci: "contents (snd imaging_input) = ''Hello world!''"
    and fj: "fst imaging_image = ''AFF4Image''"
    by (simp_all add: imaging_input_def imaging_image_def)
  note r = ImageStream_runs[OF p(1) p(2) p0 p1 p(3) p2 lz p(4) p3 li lj ne bs rd]
  have "\<exists>hp'.
     ImageStream ?e imaging_start ''/tmp/in'' ''/tmp/out.zip'' default_buffer_size
       = Some (Inr (STATUS_OK, imaging_ready\<lparr>objects := hp'\<rparr>))
     \<and> length hp' = 4
     \<and> hp' ! 3 =
          (''AFF4Image'',
           foldl (\<lambda>obj d. snd (W ''AFF4Image'' obj d)) (snd imaging_image)
             (chunks (unat default_buffer_size) ''Hello world!''))"
    using r unfolding i0 i3 len rp ci fj drop_0 wr
    by (elim exE conjE) (rule exI, intro conjI, assumption+)
  then obtain hp' where h:
    "ImageStream ?e imaging_start ''/tmp/in'' ''/tmp/out.zip'' default_buffer_size
       = Some (Inr (STATUS_OK, imaging_ready\<lparr>objects := hp'\<rparr>))
     \<and> length hp' = 4
     \<and> hp' ! 3 =
          (''AFF4Image'',
           foldl (\<lambda>obj d. snd (W ''AFF4Image'' obj d)) (snd imaging_image)
             (chunks (unat default_buffer_size) ''Hello world!''))"
    by (rule exE)
  have m: "main ?e (Parsed imaging_options) = Some (Inr (0, imaging_ready\<lparr>objects := hp'\<rparr>))"
    by (simp add: main_def parse_imaging h[THEN conjunct1])
  show ?thesis
    by (rule exI[of _ hp']) (intro conjI, rule m, rule h[THEN conjunct2, THEN conjunct1],
        rule h[THEN conjunct2, THEN conjunct2])
qed

section \<open>Properties of the handle\<close>

text \<open>
  Claim C7 (dereferencing an empty handle). \<open>operator->\<close> stops at its \<open>CHECK\<close> on a
  default constructed handle and on a moved-from handle. \<open>operator*\<close> has no check: on
  the same two handles it dereferences the null pointer.
\<close>

theorem operator_star_unchecked:
  "operator_arrow AFF4ScopedPtr_default = Inl CheckFailed
   \<and> operator_arrow (snd (move_from \<lparr>ptr = Some 0, resolver = True\<rparr>)) = Inl CheckFailed
   \<and> operator_star AFF4ScopedPtr_default = Inl NullDereference
   \<and> operator_star (snd (move_from \<lparr>ptr = Some 0, resolver = True\<rparr>)) = Inl NullDereference
   \<and> operator_not AFF4ScopedPtr_default
   \<and> operator_not (snd (move_from \<lparr>ptr = Some 0, resolver = True\<rparr>))"
  by (simp add: operator_star_def operator_arrow_def operator_not_def AFF4ScopedPtr_default_def
      move_from_def release_def)

section \<open>Properties of the factory\<close>

text \<open>
  Claim C1 (cache identity). When an open of a URN returns a handle that is not empty,
  the object it points to is the one the cache holds under the URN's value. Opening the
  same URN again returns a handle to that same address: with the same requested class it
  is never empty, with any requested class it is that address or empty, and no object is
  allocated. The same holds after any sequence of other opens in between. Both handles
  dereference to one address, so a change made through one is seen through the other.
\<close>

theorem cache_identity:
  assumes "AFF4FactoryOpen e T u s = Inr (h1, s1)" and "ptr h1 = Some a"
  shows "ObjectCache s1 u = Some a \<and> a < length (objects s1)
         \<and> (\<exists>h2 s2. AFF4FactoryOpen e T u s1 = Inr (h2, s2) \<and> ptr h2 = Some a
                \<and> operator_arrow h2 = operator_arrow h1)
         \<and> (\<forall>T'. \<exists>h2 s2. AFF4FactoryOpen e T' u s1 = Inr (h2, s2)
                \<and> (ptr h2 = Some a \<or> ptr h2 = None)
                \<and> ObjectCache s2 = ObjectCache s1
                \<and> length (objects s2) = length (objects s1))
         \<and> (\<forall>ops s2. opens e ops s1 = Inr s2 \<longrightarrow>
                (\<exists>h3 s3. AFF4FactoryOpen e T u s2 = Inr (h3, s3) \<and> ptr h3 = Some a))"
proof -
  from open_post[OF assms(1)] assms(2)
  have c: "ObjectCache s1 u = Some a" and l: "a < length (objects s1)"
    and t: "is_a e (fst (objects s1 ! a)) T"
    by (auto split: option.splits if_splits)
  have second: "\<exists>h2 s2. AFF4FactoryOpen e T u s1 = Inr (h2, s2) \<and> ptr h2 = Some a
                \<and> operator_arrow h2 = operator_arrow h1"
    using open_hit[OF c l, of e T] t assms(2) by (simp add: operator_arrow_def)
  have any: "\<exists>h2 s2. AFF4FactoryOpen e T' u s1 = Inr (h2, s2)
                \<and> (ptr h2 = Some a \<or> ptr h2 = None)
                \<and> ObjectCache s2 = ObjectCache s1
                \<and> length (objects s2) = length (objects s1)" for T'
    using open_hit[OF c l, of e T'] by simp
  have later: "\<exists>h3 s3. AFF4FactoryOpen e T u s2 = Inr (h3, s3) \<and> ptr h3 = Some a"
    if "opens e ops s1 = Inr s2" for ops s2
  proof -
    from opens_preserve[OF that c l]
    have c2: "ObjectCache s2 u = Some a" and l2: "a < length (objects s2)"
      and k2: "fst (objects s2 ! a) = fst (objects s1 ! a)"
      by simp_all
    from open_hit[OF c2 l2, of e T] t k2 show ?thesis by simp
  qed
  show ?thesis
  proof (intro conjI allI impI)
    show "ObjectCache s1 u = Some a" by (rule c)
    show "a < length (objects s1)" by (rule l)
    show "\<exists>h2 s2. AFF4FactoryOpen e T u s1 = Inr (h2, s2) \<and> ptr h2 = Some a
                \<and> operator_arrow h2 = operator_arrow h1" by (rule second)
    show "\<exists>h2 s2. AFF4FactoryOpen e T' u s1 = Inr (h2, s2)
                \<and> (ptr h2 = Some a \<or> ptr h2 = None)
                \<and> ObjectCache s2 = ObjectCache s1
                \<and> length (objects s2) = length (objects s1)" for T' by (rule any)
    show "\<exists>h3 s3. AFF4FactoryOpen e T u s2 = Inr (h3, s3) \<and> ptr h3 = Some a"
      if "opens e ops s1 = Inr s2" for ops s2 using that by (rule later)
  qed
qed

theorem cache_identity_witness:
  "\<exists>h1 s1. AFF4FactoryOpen example_env ''AFF4Stream'' ''/tmp/in'' initial_state = Inr (h1, s1)
      \<and> ptr h1 = Some 0 \<and> ObjectCache s1 ''/tmp/in'' = Some 0
      \<and> (\<exists>h2 s2. AFF4FactoryOpen example_env ''AFF4Stream'' ''/tmp/in'' s1 = Inr (h2, s2)
             \<and> ptr h2 = Some 0)
      \<and> (\<exists>s2. opens example_env [(''AFF4Stream'', ''/tmp/other'')] s1 = Inr s2
             \<and> (\<exists>h3 s3. AFF4FactoryOpen example_env ''AFF4Stream'' ''/tmp/in'' s2 = Inr (h3, s3)
                    \<and> ptr h3 = Some 0))"
proof -
  obtain h1 s1 where
    o: "AFF4FactoryOpen example_env ''AFF4Stream'' ''/tmp/in'' initial_state = Inr (h1, s1)"
    and p: "ptr h1 = Some 0"
    by (simp add: AFF4FactoryOpen_def example_env_def example_Parse_def initial_state_def
        example_Get_def AFF4ScopedPtr_new_def)
  note ci = cache_identity[OF o p]
  from ci have c: "ObjectCache s1 ''/tmp/in'' = Some 0" by simp
  from ci have second: "\<exists>h2 s2. AFF4FactoryOpen example_env ''AFF4Stream'' ''/tmp/in'' s1
                           = Inr (h2, s2) \<and> ptr h2 = Some 0" by blast
  from ci have later: "\<And>ops s2. opens example_env ops s1 = Inr s2 \<Longrightarrow>
      (\<exists>h3 s3. AFF4FactoryOpen example_env ''AFF4Stream'' ''/tmp/in'' s2 = Inr (h3, s3)
          \<and> ptr h3 = Some 0)" by blast
  have "ObjectCache s1 ''/tmp/other'' = None" and "store s1 = Map.empty"
    using o by (auto simp: AFF4FactoryOpen_def example_env_def example_Parse_def
        initial_state_def example_Get_def AFF4ScopedPtr_new_def)
  then obtain s2 where r: "opens example_env [(''AFF4Stream'', ''/tmp/other'')] s1 = Inr s2"
    by (simp add: AFF4FactoryOpen_def example_env_def example_Parse_def
        example_Get_def AFF4ScopedPtr_new_def Let_def)
  from later[OF r] r o p c second show ?thesis by blast
qed

text \<open>
  Claim C3 (narrowing failure). Whenever an open returns, the handle is either empty or
  points to the live object cached under the URN, and it points there only when that
  object's class supports the requested class \<open>T\<close>. In particular the handle is empty
  when the object found in the cache does not support \<open>T\<close>, and when the object that was
  constructed does not support \<open>T\<close>. An empty handle answers true to \<open>operator!\<close> and null
  to \<open>get\<close>.
\<close>

theorem narrowing_failure:
  assumes "AFF4FactoryOpen e T u s = Inr (h, s')"
  shows "(case ObjectCache s' u of
            None \<Rightarrow> ptr h = None
          | Some a \<Rightarrow> a < length (objects s')
                      \<and> ptr h = (if is_a e (fst (objects s' ! a)) T then Some a else None))
         \<and> (\<forall>a. ObjectCache s u = Some a \<and> \<not> is_a e (fst (objects s ! a)) T
                \<longrightarrow> ptr h = None)
         \<and> (\<forall>c obj. ObjectCache s u = None
                \<and> CreateInstance e (registry_key s e u) = Some (c, obj) \<and> \<not> is_a e c T
                \<longrightarrow> ptr h = None)
         \<and> (ptr h = None \<longrightarrow> operator_not h \<and> get h = None)"
proof -
  have cached: "ptr h = None"
    if "ObjectCache s u = Some a" and "\<not> is_a e (fst (objects s ! a)) T" for a
  proof (cases "a < length (objects s)")
    case True
    from open_hit[OF that(1) True, of e T] assms that(2) show ?thesis by auto
  next
    case False
    from open_dangling[OF that(1) False, of e T] assms show ?thesis by simp
  qed
  have fresh: "ptr h = None"
    if n: "ObjectCache s u = None"
      and c: "CreateInstance e (registry_key s e u) = Some (c, obj)"
      and t: "\<not> is_a e c T" for c obj
  proof -
    obtain st2 obj' store' where
      l: "LoadFromURN e c (store s) (obj\<lparr>urn := u\<rparr>) = (st2, obj', store')"
      by (cases "LoadFromURN e c (store s) (obj\<lparr>urn := u\<rparr>)")
    show ?thesis
    proof (cases "st2 = STATUS_OK")
      case True
      from open_loaded[OF n c l[unfolded True], of T] assms t show ?thesis by auto
    next
      case False
      from open_load_failed[OF n c l False, of T] assms
      show ?thesis by (auto simp: AFF4ScopedPtr_default_def)
    qed
  qed
  have empty: "operator_not h \<and> get h = None" if "ptr h = None"
    using that by (simp add: operator_not_def get_def)
  from open_post[OF assms] cached fresh empty show ?thesis by simp
qed

theorem narrowing_failure_witness:
  "\<exists>h s'. AFF4FactoryOpen example_env ''AFF4Volume'' ''/tmp/in'' initial_state = Inr (h, s')
      \<and> CreateInstance example_env (registry_key initial_state example_env ''/tmp/in'')
          = Some (''FileBackedObject'', \<lparr>urn = [], contents = [], readptr = 0\<rparr>)
      \<and> \<not> is_a example_env ''FileBackedObject'' ''AFF4Volume''
      \<and> ObjectCache initial_state ''/tmp/in'' = None
      \<and> ptr h = None \<and> operator_not h \<and> get h = None"
proof -
  obtain h s' where
    o: "AFF4FactoryOpen example_env ''AFF4Volume'' ''/tmp/in'' initial_state = Inr (h, s')"
    by (simp add: AFF4FactoryOpen_def example_env_def example_Parse_def initial_state_def
        example_Get_def AFF4ScopedPtr_new_def)
  have c: "CreateInstance example_env (registry_key initial_state example_env ''/tmp/in'')
          = Some (''FileBackedObject'', \<lparr>urn = [], contents = [], readptr = 0\<rparr>)"
    by (simp add: registry_key_def declared_type_def example_env_def example_Parse_def
        example_Get_def initial_state_def)
  have t: "\<not> is_a example_env ''FileBackedObject'' ''AFF4Volume''"
    by (simp add: example_env_def)
  have n: "ObjectCache initial_state ''/tmp/in'' = None"
    by (simp add: initial_state_def)
  from narrowing_failure[OF o]
  have f: "\<forall>c obj. ObjectCache initial_state ''/tmp/in'' = None
                \<and> CreateInstance example_env (registry_key initial_state example_env ''/tmp/in'')
                    = Some (c, obj) \<and> \<not> is_a example_env c ''AFF4Volume''
                \<longrightarrow> ptr h = None"
    and g: "ptr h = None \<longrightarrow> operator_not h \<and> get h = None"
    by simp_all
  from f c t n have p: "ptr h = None" by simp
  with g have "operator_not h \<and> get h = None" by simp
  with o c t n p show ?thesis by simp
qed

text \<open>
  Claim C4 (order of lookup). For a URN that is not in the cache, the class registry is
  asked for one name: the declared type when the triple store has one, and the scheme of
  the URN otherwise. When the registry has no constructor for that name the open returns
  the empty handle and the state, the cache included, is unchanged; this is so in
  particular when neither the scheme nor any declared type has a constructor. When the
  registry has a constructor and the instance loads, it is that instance which ends up
  in the cache under the URN.
\<close>

theorem open_lookup_order:
  assumes "ObjectCache s u = None"
  shows "(CreateInstance e (registry_key s e u) = None
            \<longrightarrow> AFF4FactoryOpen e T u s = Inr (AFF4ScopedPtr_default, s))
         \<and> (CreateInstance e (scheme (Parse e u)) = None
              \<and> (\<forall>t. declared_type s e u = Some t \<longrightarrow> CreateInstance e t = None)
            \<longrightarrow> AFF4FactoryOpen e T u s = Inr (AFF4ScopedPtr_default, s))
         \<and> (\<forall>c obj obj' store'.
              CreateInstance e (registry_key s e u) = Some (c, obj)
              \<and> LoadFromURN e c (store s) (obj\<lparr>urn := u\<rparr>) = (STATUS_OK, obj', store')
            \<longrightarrow> (\<exists>h s'. AFF4FactoryOpen e T u s = Inr (h, s')
                   \<and> ObjectCache s' u = Some (length (objects s))
                   \<and> objects s' ! length (objects s) = (c, obj')))
         \<and> ptr AFF4ScopedPtr_default = None"
proof -
  have a: "AFF4FactoryOpen e T u s = Inr (AFF4ScopedPtr_default, s)"
    if "CreateInstance e (registry_key s e u) = None"
    using open_unknown[OF assms that] .
  have b: "CreateInstance e (registry_key s e u) = None"
    if "CreateInstance e (scheme (Parse e u)) = None"
      and "\<forall>t. declared_type s e u = Some t \<longrightarrow> CreateInstance e t = None"
    using that by (cases "declared_type s e u") (simp_all add: registry_key_def)
  have c: "\<exists>h s'. AFF4FactoryOpen e T u s = Inr (h, s')
                   \<and> ObjectCache s' u = Some (length (objects s))
                   \<and> objects s' ! length (objects s) = (c, obj')"
    if "CreateInstance e (registry_key s e u) = Some (c, obj)"
      and "LoadFromURN e c (store s) (obj\<lparr>urn := u\<rparr>) = (STATUS_OK, obj', store')"
    for c obj obj' store'
    using open_loaded[OF assms that, of T] by simp
  show ?thesis
  proof (intro conjI allI impI)
    assume "CreateInstance e (registry_key s e u) = None"
    then show "AFF4FactoryOpen e T u s = Inr (AFF4ScopedPtr_default, s)" by (rule a)
  next
    assume "CreateInstance e (scheme (Parse e u)) = None
              \<and> (\<forall>t. declared_type s e u = Some t \<longrightarrow> CreateInstance e t = None)"
    then have "CreateInstance e (registry_key s e u) = None" using b by simp
    then show "AFF4FactoryOpen e T u s = Inr (AFF4ScopedPtr_default, s)" by (rule a)
  next
    fix c obj obj' store'
    assume "CreateInstance e (registry_key s e u) = Some (c, obj)
              \<and> LoadFromURN e c (store s) (obj\<lparr>urn := u\<rparr>) = (STATUS_OK, obj', store')"
    then show "\<exists>h s'. AFF4FactoryOpen e T u s = Inr (h, s')
                   \<and> ObjectCache s' u = Some (length (objects s))
                   \<and> objects s' ! length (objects s) = (c, obj')"
      using c by simp
  next
    show "ptr AFF4ScopedPtr_default = None" by (simp add: AFF4ScopedPtr_default_def)
  qed
qed

theorem open_lookup_order_witness:
  "ObjectCache initial_state ''gopher://host/x'' = None
   \<and> registry_key initial_state example_env ''gopher://host/x'' = ''gopher''
   \<and> CreateInstance example_env ''gopher'' = None
   \<and> AFF4FactoryOpen example_env ''AFF4Stream'' ''gopher://host/x'' initial_state
        = Inr (AFF4ScopedPtr_default, initial_state)
   \<and> ObjectCache example_typed_state ''aff4://vol'' = None
   \<and> registry_key example_typed_state example_env ''aff4://vol'' = ''aff4:zip_volume''
   \<and> CreateInstance example_env (scheme (Parse example_env ''aff4://vol'')) = None
   \<and> (\<exists>h s'. AFF4FactoryOpen example_env ''AFF4Volume'' ''aff4://vol'' example_typed_state
                 = Inr (h, s')
          \<and> ObjectCache s' ''aff4://vol'' = Some 0
          \<and> objects s' ! 0 = (''ZipFile'', \<lparr>urn = ''aff4://vol'', contents = [], readptr = 0\<rparr>))"
proof -
  have n1: "ObjectCache initial_state ''gopher://host/x'' = None"
    by (simp add: initial_state_def)
  have k1: "registry_key initial_state example_env ''gopher://host/x'' = ''gopher''"
    by (simp add: registry_key_def declared_type_def example_env_def example_Parse_def
        example_Get_def initial_state_def)
  have c1: "CreateInstance example_env ''gopher'' = None"
    by (simp add: example_env_def)
  have n2: "ObjectCache example_typed_state ''aff4://vol'' = None"
    by (simp add: example_typed_state_def initial_state_def)
  have k2: "registry_key example_typed_state example_env ''aff4://vol'' = ''aff4:zip_volume''"
    by (simp add: registry_key_def declared_type_def example_env_def example_typed_state_def
        example_Get_def initial_state_def)
  have c2: "CreateInstance example_env ''aff4:zip_volume''
              = Some (''ZipFile'', \<lparr>urn = [], contents = [], readptr = 0\<rparr>)"
    by (simp add: example_env_def)
  have l2: "LoadFromURN example_env ''ZipFile'' (store example_typed_state)
              (\<lparr>urn = [], contents = [], readptr = 0\<rparr>\<lparr>urn := ''aff4://vol''\<rparr>)
            = (STATUS_OK, \<lparr>urn = ''aff4://vol'', contents = [], readptr = 0\<rparr>,
               store example_typed_state)"
    by (simp add: example_env_def)
  have s2: "CreateInstance example_env (scheme (Parse example_env ''aff4://vol'')) = None"
    by (simp add: example_env_def example_Parse_def)
  have o2: "length (objects example_typed_state) = 0"
    by (simp add: example_typed_state_def initial_state_def)
  from open_lookup_order[OF n1, of example_env "''AFF4Stream''"] k1 c1
  have r1: "AFF4FactoryOpen example_env ''AFF4Stream'' ''gopher://host/x'' initial_state
        = Inr (AFF4ScopedPtr_default, initial_state)"
    by simp
  from open_lookup_order[OF n2, of example_env "''AFF4Volume''"] k2 c2 l2 o2
  have r2: "\<exists>h s'. AFF4FactoryOpen example_env ''AFF4Volume'' ''aff4://vol'' example_typed_state
                 = Inr (h, s')
          \<and> ObjectCache s' ''aff4://vol'' = Some 0
          \<and> objects s' ! 0 = (''ZipFile'', \<lparr>urn = ''aff4://vol'', contents = [], readptr = 0\<rparr>)"
    by simp
  from n1 k1 c1 r1 n2 k2 s2 r2 show ?thesis by simp
qed

text \<open>
  Claim C5 (load failure). Opening \<open>file:///missing\<close> on a fresh resolver: no type is
  declared, the registry is asked for the scheme \<open>file\<close>, whose instance fails to load.
  The open returns the default handle and caches nothing, and the warning it logs ends
  after \<open>as\<close>: it prints \<open>type_urn\<close>, which is only set when a type is declared. When
  the type is declared, as for \<open>aff4://vol\<close>, the warning of a failed load names it.
\<close>

theorem load_warning_names_no_type:
  "declared_type initial_state example_env ''file:///missing'' = None
   \<and> registry_key initial_state example_env ''file:///missing'' = ''file''
   \<and> CreateInstance example_env ''file''
        = Some (''FileBackedObject'', \<lparr>urn = [], contents = [], readptr = 0\<rparr>)
   \<and> fst (LoadFromURN example_env ''FileBackedObject'' (store initial_state)
             \<lparr>urn = ''file:///missing'', contents = [], readptr = 0\<rparr>) = IO_ERROR
   \<and> AFF4FactoryOpen example_env ''AFF4Stream'' ''file:///missing'' initial_state
        = Inr (AFF4ScopedPtr_default,
               initial_state\<lparr>glog := [(WARNING, ''Failed to load file:///missing as '')]\<rparr>)
   \<and> load_warning ''file:///missing'' [] = ''Failed to load file:///missing as ''
   \<and> declared_type example_typed_state example_env ''aff4://vol'' = Some ''aff4:zip_volume''
   \<and> AFF4FactoryOpen (example_env\<lparr>LoadFromURN := (\<lambda>c st obj. (IO_ERROR, obj, st))\<rparr>)
        ''AFF4Volume'' ''aff4://vol'' example_typed_state
        = Inr (AFF4ScopedPtr_default,
               example_typed_state\<lparr>glog :=
                 [(WARNING, ''Failed to load aff4://vol as aff4:zip_volume'')]\<rparr>)"
  by (simp add: AFF4FactoryOpen_def example_env_def example_Parse_def initial_state_def
      example_typed_state_def example_Get_def registry_key_def declared_type_def
      load_warning_def c_str_def)

text \<open>
  Claim C6 (failed narrowing still caches). When a newly constructed object loads but its
  class does not support the requested class, the open returns an empty handle and yet
  the object is in the cache under the URN afterwards, so the cache has changed. A later
  open of the URN with a class the object supports returns that very object.
\<close>

theorem failed_narrowing_caches:
  assumes "ObjectCache s u = None"
    and "CreateInstance e (registry_key s e u) = Some (c, obj)"
    and "LoadFromURN e c (store s) (obj\<lparr>urn := u\<rparr>) = (STATUS_OK, obj', store')"
    and "\<not> is_a e c T"
  shows "\<exists>h s1. AFF4FactoryOpen e T u s = Inr (h, s1)
           \<and> operator_not h
           \<and> ObjectCache s1 u = Some (length (objects s))
           \<and> ObjectCache s1 \<noteq> ObjectCache s
           \<and> objects s1 = objects s @ [(c, obj')]
           \<and> (\<forall>T'. is_a e c T' \<longrightarrow>
                 (\<exists>h2 s2. AFF4FactoryOpen e T' u s1 = Inr (h2, s2)
                      \<and> ptr h2 = Some (length (objects s))
                      \<and> fst (objects s2 ! length (objects s)) = c))"
proof -
  let ?a = "length (objects s)"
  let ?s1 = "s\<lparr>store := store', objects := objects s @ [(c, obj')],
               ObjectCache := (ObjectCache s)(u \<mapsto> ?a)\<rparr>"
  have o: "AFF4FactoryOpen e T u s = Inr (\<lparr>ptr = None, resolver = True\<rparr>, ?s1)"
    using open_loaded[OF assms(1,2,3), of T] assms(4) by simp
  have n: "operator_not \<lparr>ptr = None, resolver = True\<rparr>"
    by (simp add: operator_not_def)
  have c1: "ObjectCache ?s1 u = Some ?a" by simp
  have l1: "?a < length (objects ?s1)" by simp
  have ne: "ObjectCache ?s1 \<noteq> ObjectCache s"
  proof
    assume "ObjectCache ?s1 = ObjectCache s"
    then have "ObjectCache ?s1 u = ObjectCache s u" by (rule arg_cong)
    with assms(1) show False by simp
  qed
  have again: "\<exists>h2 s2. AFF4FactoryOpen e T' u ?s1 = Inr (h2, s2)
                      \<and> ptr h2 = Some ?a \<and> fst (objects s2 ! ?a) = c"
    if "is_a e c T'" for T'
    using open_hit[OF c1 l1, of e T'] that by simp
  from o n c1 ne again show ?thesis by simp
qed

theorem failed_narrowing_caches_witness:
  "ObjectCache initial_state ''/tmp/in'' = None
   \<and> \<not> is_a example_env ''FileBackedObject'' ''AFF4Volume''
   \<and> is_a example_env ''FileBackedObject'' ''AFF4Stream''
   \<and> (\<exists>h s1. AFF4FactoryOpen example_env ''AFF4Volume'' ''/tmp/in'' initial_state = Inr (h, s1)
          \<and> operator_not h \<and> ObjectCache s1 ''/tmp/in'' = Some 0
          \<and> (\<exists>h2 s2. AFF4FactoryOpen example_env ''AFF4Stream'' ''/tmp/in'' s1 = Inr (h2, s2)
                 \<and> ptr h2 = Some 0))"
proof -
  have n: "ObjectCache initial_state ''/tmp/in'' = None"
    by (simp add: initial_state_def)
  have c: "CreateInstance example_env (registry_key initial_state example_env ''/tmp/in'')
          = Some (''FileBackedObject'', \<lparr>urn = [], contents = [], readptr = 0\<rparr>)"
    by (simp add: registry_key_def declared_type_def example_env_def example_Parse_def
        example_Get_def initial_state_def)
  have l: "LoadFromURN example_env ''FileBackedObject'' (store initial_state)
             (\<lparr>urn = [], contents = [], readptr = 0\<rparr>\<lparr>urn := ''/tmp/in''\<rparr>)
           = (STATUS_OK, \<lparr>urn = ''/tmp/in'', contents = [], readptr = 0\<rparr>, store initial_state)"
    by (simp add: example_env_def)
  have t: "\<not> is_a example_env ''FileBackedObject'' ''AFF4Volume''"
    by (simp add: example_env_def)
  have t': "is_a example_env ''FileBackedObject'' ''AFF4Stream''"
    by (simp add: example_env_def)
  have z: "length (objects initial_state) = 0" by (simp add: initial_state_def)
  from failed_narrowing_caches[OF n c l t] t' z
  have "\<exists>h s1. AFF4FactoryOpen example_env ''AFF4Volume'' ''/tmp/in'' initial_state = Inr (h, s1)
          \<and> operator_not h \<and> ObjectCache s1 ''/tmp/in'' = Some 0
          \<and> (\<exists>h2 s2. AFF4FactoryOpen example_env ''AFF4Stream'' ''/tmp/in'' s1 = Inr (h2, s2)
                 \<and> ptr h2 = Some 0)"
    by (simp only:) blast
  with n t t' show ?thesis by simp
qed

section \<open>Properties of the imager\<close>

text \<open>
  Claim C2 (imaging). Let both streams open, the volume and the image stream be created,
  and the handles of input and image point to two different live objects. Let the class of
  the input read as the contract of a stream says, let every write to the image succeed
  and append, and let the buffer size be at least 1. Then \<open>ImageStream\<close> returns
  \<open>STATUS_OK\<close>: its loop terminates, the image stream has been written the chunks of the
  input in order, and so holds, after what it held before, exactly the bytes the input
  held from its read position on (all of them for an input at position 0). The input's
  bytes are as they were. The same holds for the default buffer size, 1024 * 1024.
\<close>

theorem imaging_copies_input:
  assumes o1: "AFF4FactoryOpen e ''AFF4Stream'' input_urn s = Inr (inp, s1)"
    and o2: "AFF4FactoryOpen e ''AFF4Stream'' output_urn s1 = Inr (outp, s2)"
    and pi: "ptr inp = Some i" and po: "ptr outp = Some oa"
    and z: "NewZipFile e s2 (urn (snd (objects s2 ! oa))) = (zp, s3)"
    and pz: "ptr zp = Some za" and lz: "za < length (objects s3)"
    and im: "NewAFF4Image e s3
               (Append e (urn (snd (objects s3 ! za))) (path (Parse e input_urn)))
               (urn (snd (objects s3 ! za))) = (img, s4)"
    and pj: "ptr img = Some j"
    and li: "i < length (objects s4)" and lj: "j < length (objects s4)" and ne: "i \<noteq> j"
    and bs: "buffer_size \<noteq> 0"
    and rd: "Read e (fst (objects s4 ! i)) = stream_Read"
    and wr: "Write e (fst (objects s4 ! j)) = (\<lambda>obj d. (STATUS_OK, stream_Write obj d))"
  shows "(\<exists>hp'. ImageStream e s input_urn output_urn buffer_size
                  = Some (Inr (STATUS_OK, s4\<lparr>objects := hp'\<rparr>))
            \<and> length hp' = length (objects s4)
            \<and> snd (hp' ! j) =
                foldl stream_Write (snd (objects s4 ! j))
                  (chunks (unat buffer_size)
                     (drop (readptr (snd (objects s4 ! i))) (contents (snd (objects s4 ! i)))))
            \<and> contents (snd (hp' ! j)) =
                contents (snd (objects s4 ! j))
                  @ drop (readptr (snd (objects s4 ! i))) (contents (snd (objects s4 ! i)))
            \<and> contents (snd (hp' ! i)) = contents (snd (objects s4 ! i)))
         \<and> (\<exists>hp'. ImageStream e s input_urn output_urn default_buffer_size
                  = Some (Inr (STATUS_OK, s4\<lparr>objects := hp'\<rparr>))
            \<and> contents (snd (hp' ! j)) =
                contents (snd (objects s4 ! j))
                  @ drop (readptr (snd (objects s4 ! i))) (contents (snd (objects s4 ! i))))
         \<and> unat default_buffer_size = 1024 * 1024"
proof -
  let ?rest = "drop (readptr (snd (objects s4 ! i))) (contents (snd (objects s4 ! i)))"
  have w: "(\<lambda>obj d. snd (Write e (fst (objects s4 ! j)) obj d)) = stream_Write"
    by (simp add: wr)
  have run: "\<exists>hp'. ImageStream e s input_urn output_urn b
                  = Some (Inr (STATUS_OK, s4\<lparr>objects := hp'\<rparr>))
            \<and> length hp' = length (objects s4)
            \<and> snd (hp' ! j) = foldl stream_Write (snd (objects s4 ! j)) (chunks (unat b) ?rest)
            \<and> contents (snd (hp' ! j)) = contents (snd (objects s4 ! j)) @ ?rest
            \<and> contents (snd (hp' ! i)) = contents (snd (objects s4 ! i))"
    if b: "b \<noteq> 0" for b
  proof -
    from ImageStream_runs[OF o1 o2 pi po z pz lz im pj li lj ne b rd]
    obtain hp' where h: "ImageStream e s input_urn output_urn b
                  = Some (Inr (STATUS_OK, s4\<lparr>objects := hp'\<rparr>))
      \<and> length hp' = length (objects s4)
      \<and> hp' ! j = (fst (objects s4 ! j),
                 foldl (\<lambda>obj d. snd (Write e (fst (objects s4 ! j)) obj d))
                   (snd (objects s4 ! j)) (chunks (unat b) ?rest))
      \<and> contents (snd (hp' ! i)) = contents (snd (objects s4 ! i))"
      by (rule exE)
    note h1 = h[THEN conjunct1]
    note h2 = h[THEN conjunct2, THEN conjunct1]
    note h3 = h[THEN conjunct2, THEN conjunct2, THEN conjunct1]
    note h4 = h[THEN conjunct2, THEN conjunct2, THEN conjunct2]
    have j: "snd (hp' ! j) = foldl stream_Write (snd (objects s4 ! j)) (chunks (unat b) ?rest)"
      by (simp only: h3 w snd_conv)
    have "0 < unat b" using b by (simp add: unat_gt_0)
    then have cc: "concat (chunks (unat b) ?rest) = ?rest" by (rule concat_chunks)
    have e: "(\<lambda>obj d. snd (STATUS_OK, stream_Write obj d)) = stream_Write"
      by (simp only: snd_conv)
    have f: "foldl stream_Write (snd (objects s4 ! j)) (chunks (unat b) ?rest)
            = (snd (objects s4 ! j))\<lparr>contents := contents (snd (objects s4 ! j))
                 @ concat (chunks (unat b) ?rest)\<rparr>"
      using foldl_stream_Write[of "snd (objects s4 ! j)" "chunks (unat b) ?rest"]
      by (simp only: e)
    have c: "contents (snd (hp' ! j)) = contents (snd (objects s4 ! j)) @ ?rest"
      by (simp only: j f cc) simp
    show ?thesis
      by (rule exI[of _ hp']) (intro conjI, rule h1, rule h2, rule j, rule c, rule h4)
  qed
  have d0: "default_buffer_size \<noteq> 0" by (simp add: default_buffer_size_def)
  have dv: "unat default_buffer_size = 1024 * 1024" by (simp add: default_buffer_size_def)
  from run[OF d0] obtain hpd where d: "ImageStream e s input_urn output_urn default_buffer_size
                  = Some (Inr (STATUS_OK, s4\<lparr>objects := hpd\<rparr>))
            \<and> length hpd = length (objects s4)
            \<and> snd (hpd ! j) = foldl stream_Write (snd (objects s4 ! j))
                  (chunks (unat default_buffer_size) ?rest)
            \<and> contents (snd (hpd ! j)) = contents (snd (objects s4 ! j)) @ ?rest
            \<and> contents (snd (hpd ! i)) = contents (snd (objects s4 ! i))"
    by (rule exE)
  have dflt: "\<exists>hp'. ImageStream e s input_urn output_urn default_buffer_size
                  = Some (Inr (STATUS_OK, s4\<lparr>objects := hp'\<rparr>))
            \<and> contents (snd (hp' ! j)) = contents (snd (objects s4 ! j)) @ ?rest"
    by (rule exI[of _ hpd])
       (intro conjI, rule d[THEN conjunct1],
        rule d[THEN conjunct2, THEN conjunct2, THEN conjunct2, THEN conjunct1])
  show ?thesis
    by (intro conjI) (rule run[OF bs], rule dflt, rule dv)
qed


theorem imaging_copies_input_witness:
  "(\<exists>hp'. ImageStream imaging_env imaging_start ''/tmp/in'' ''/tmp/out.zip'' 4
             = Some (Inr (STATUS_OK, imaging_ready\<lparr>objects := hp'\<rparr>))
       \<and> length hp' = 4
       \<and> snd (hp' ! 3) = foldl stream_Write (snd imaging_image) [''Hell'', ''o wo'', ''rld!'']
       \<and> contents (snd (hp' ! 3)) = ''Hello world!''
       \<and> contents (snd (hp' ! 0)) = ''Hello world!'')
   \<and> (\<exists>hp'. ImageStream imaging_env imaging_start ''/tmp/in'' ''/tmp/out.zip'' 1
             = Some (Inr (STATUS_OK, imaging_ready\<lparr>objects := hp'\<rparr>))
       \<and> length hp' = 4
       \<and> contents (snd (hp' ! 3)) = ''Hello world!''
       \<and> contents (snd (hp' ! 0)) = ''Hello world!'')
   \<and> (\<exists>hp'. ImageStream imaging_env imaging_start ''/tmp/in'' ''/tmp/out.zip''
               default_buffer_size
             = Some (Inr (STATUS_OK, imaging_ready\<lparr>objects := hp'\<rparr>))
       \<and> contents (snd (hp' ! 3)) = ''Hello world!'')"
proof -
  have env: "imaging_env\<lparr>Write := Write imaging_env\<rparr> = imaging_env" by simp
  note p = imaging_prepared[of "Write imaging_env", unfolded env]
  have p0: "ptr \<lparr>ptr = Some 0, resolver = True\<rparr> = Some 0"
    and p1: "ptr \<lparr>ptr = Some 1, resolver = True\<rparr> = Some 1"
    and p2: "ptr \<lparr>ptr = Some 2, resolver = True\<rparr> = Some 2"
    and p3: "ptr \<lparr>ptr = Some 3, resolver = True\<rparr> = Some 3"
    by simp_all
  have lz: "2 < length (objects imaging_with_volume)"
    by (simp add: imaging_ready_objects)
  have li: "0 < length (objects imaging_ready)" and lj: "3 < length (objects imaging_ready)"
    by (simp_all add: imaging_ready_objects)
  have ne: "(0::nat) \<noteq> 3" by simp
  have bs: "(4::32 word) \<noteq> 0" and bs1: "(1::32 word) \<noteq> 0" by simp_all
  have rd: "Read imaging_env (fst (objects imaging_ready ! 0)) = stream_Read"
    by (simp add: imaging_env_def example_env_def)
  have wr: "Write imaging_env (fst (objects imaging_ready ! 3))
              = (\<lambda>obj d. (STATUS_OK, stream_Write obj d))"
    by (simp add: imaging_env_def example_env_def)
  note t = imaging_copies_input[OF p(1) p(2) p0 p1 p(3) p2 lz p(4) p3 li lj ne bs rd wr]
  note t1 = imaging_copies_input[OF p(1) p(2) p0 p1 p(3) p2 lz p(4) p3 li lj ne bs1 rd wr]
  have i0: "objects imaging_ready ! 0 = imaging_input"
    and i3: "objects imaging_ready ! 3 = imaging_image"
    and len: "length (objects imaging_ready) = 4"
    by (simp_all add: imaging_ready_objects)
  have rp: "readptr (snd imaging_input) = 0"
    by (simp add: imaging_input_def)
  have ci: "contents (snd imaging_input) = ''Hello world!''"
    by (simp add: imaging_input_def)
  have cj: "contents (snd imaging_image) = []"
    by (simp add: imaging_image_def)
  have ch: "chunks (unat (4::32 word)) ''Hello world!'' = [''Hell'', ''o wo'', ''rld!'']"
    by simp
  have a: "\<exists>hp'. ImageStream imaging_env imaging_start ''/tmp/in'' ''/tmp/out.zip'' 4
             = Some (Inr (STATUS_OK, imaging_ready\<lparr>objects := hp'\<rparr>))
       \<and> length hp' = 4
       \<and> snd (hp' ! 3) = foldl stream_Write (snd imaging_image) [''Hell'', ''o wo'', ''rld!'']
       \<and> contents (snd (hp' ! 3)) = ''Hello world!''
       \<and> contents (snd (hp' ! 0)) = ''Hello world!''"
    using t[THEN conjunct1] by (simp only: i0 i3 len rp ci cj drop_0 ch append_Nil)
  have b: "\<exists>hp'. ImageStream imaging_env imaging_start ''/tmp/in'' ''/tmp/out.zip'' 1
             = Some (Inr (STATUS_OK, imaging_ready\<lparr>objects := hp'\<rparr>))
       \<and> length hp' = 4
       \<and> contents (snd (hp' ! 3)) = ''Hello world!''
       \<and> contents (snd (hp' ! 0)) = ''Hello world!''"
    using t1[THEN conjunct1] unfolding i0 i3 len rp ci cj drop_0 append_Nil
    by (elim exE conjE) (rule exI, intro conjI, assumption+)
  have c: "\<exists>hp'. ImageStream imaging_env imaging_start ''/tmp/in'' ''/tmp/out.zip''
               default_buffer_size
             = Some (Inr (STATUS_OK, imaging_ready\<lparr>objects := hp'\<rparr>))
       \<and> contents (snd (hp' ! 3)) = ''Hello world!''"
    using t[THEN conjunct2, THEN conjunct1] by (simp only: i0 i3 rp ci cj drop_0 append_Nil)
  show ?thesis
    by (intro conjI) (rule a, rule b, rule c)
qed

section \<open>Properties of the command line\<close>

text \<open>
  Claim C8 (input without output). When \<open>--in\<close> is set and \<open>--out\<close> is not,
  \<open>parseOptions\<close> returns \<open>INVALID_INPUT\<close> and \<open>main\<close> exits with the integer value of
  that status. The only effects are the error line on \<open>cout\<close> and, with \<open>--verbose\<close>, the
  logging threshold: the triple store and the object cache are empty, no object exists
  and nothing is logged. The result is the same for every library environment, also one
  in which opening a stream would fault or imaging would not end.
\<close>

theorem input_without_output:
  assumes "input opts = Some i" and "output opts = None"
  shows "parseOptions e (Parsed opts) s0 =
           Some (Inr (INVALID_INPUT,
                      s0\<lparr>store := Map.empty, ObjectCache := Map.empty,
                         stderrthreshold := (if verbose opts then INFO else stderrthreshold s0),
                         cout := cout s0
                           @ ''ERROR: Can not specify an input without an output'' @ newline\<rparr>))
         \<and> main e (Parsed opts) =
           Some (Inr (status_value e INVALID_INPUT,
                      initial_state\<lparr>stderrthreshold := (if verbose opts then INFO else ERROR),
                        cout := ''ERROR: Can not specify an input without an output''
                                  @ newline\<rparr>))"
  using assms by (simp add: main_def parseOptions_def initial_state_def)

theorem input_without_output_witness:
  "input \<lparr>view = False, verbose = False, truncate_arg = True, input = Some ''/tmp/in'',
          output = None, filename = []\<rparr> = Some ''/tmp/in''
   \<and> output \<lparr>view = False, verbose = False, truncate_arg = True, input = Some ''/tmp/in'',
          output = None, filename = []\<rparr> = None
   \<and> main example_env (Parsed \<lparr>view = False, verbose = False, truncate_arg = True,
          input = Some ''/tmp/in'', output = None, filename = []\<rparr>)
      = Some (Inr (- 3, initial_state\<lparr>cout :=
            ''ERROR: Can not specify an input without an output'' @ newline\<rparr>))"
proof -
  let ?o = "\<lparr>view = False, verbose = False, truncate_arg = True, input = Some ''/tmp/in'',
          output = None, filename = []\<rparr>"
  have i: "input ?o = Some ''/tmp/in''" by simp
  have u: "output ?o = None" by simp
  from input_without_output[OF i u, of example_env] i u show ?thesis
    by (simp add: example_env_def initial_state_def)
qed

text \<open>
  Claim C9 (exit status). Imaging ends with exit status 0 whatever the writes to the
  image stream return: \<open>ImageStream\<close> calls \<open>image->Write(data)\<close> and drops the result.
  With an output that cannot be written every write returns \<open>IO_ERROR\<close>, nothing reaches
  the image stream, nothing is logged about it, and the process still exits with
  status 0.
\<close>

theorem write_failure_exit_status:
  "(\<forall>W. exit_status (main (imaging_env\<lparr>Write := W\<rparr>) (Parsed imaging_options)) = Some 0)
   \<and> fst (Write failing_write_env ''AFF4Image'' (snd imaging_image) ''Hello world!'')
       = IO_ERROR
   \<and> (\<exists>s. main failing_write_env (Parsed imaging_options) = Some (Inr (0, s))
          \<and> objects s ! 3 = imaging_image
          \<and> contents (snd (objects s ! 3)) = []
          \<and> glog s = [(INFO, ''Truncating output file: /tmp/out.zip'' @ newline)])
   \<and> exit_status (main failing_write_env (Parsed imaging_options)) = Some 0"
proof -
  have all: "exit_status (main (imaging_env\<lparr>Write := W\<rparr>) (Parsed imaging_options)) = Some 0"
    for W
  proof -
    from imaging_exit_status[of W] obtain hp' where h:
      "main (imaging_env\<lparr>Write := W\<rparr>) (Parsed imaging_options)
         = Some (Inr (0, imaging_ready\<lparr>objects := hp'\<rparr>))
       \<and> length hp' = 4
       \<and> hp' ! 3 =
          (''AFF4Image'',
           foldl (\<lambda>obj d. snd (W ''AFF4Image'' obj d)) (snd imaging_image)
             (chunks (unat default_buffer_size) ''Hello world!''))"
      by (rule exE)
    from h[THEN conjunct1]
    show ?thesis by (simp add: exit_status_def)
  qed
  have w: "fst (Write failing_write_env ''AFF4Image'' (snd imaging_image) ''Hello world!'')
             = IO_ERROR"
    by (simp add: failing_write_env_def)
  from imaging_exit_status[of "\<lambda>c obj d. (IO_ERROR, obj)", folded failing_write_env_def]
  obtain hp' where h: "main failing_write_env (Parsed imaging_options)
         = Some (Inr (0, imaging_ready\<lparr>objects := hp'\<rparr>))
       \<and> length hp' = 4
       \<and> hp' ! 3 = (''AFF4Image'',
           foldl (\<lambda>obj d. snd (IO_ERROR, obj)) (snd imaging_image)
             (chunks (unat default_buffer_size) ''Hello world!''))"
    by (rule exE)
  note m = h[THEN conjunct1]
  note j = h[THEN conjunct2, THEN conjunct2]
  have j': "hp' ! 3 = imaging_image"
    by (simp only: j foldl_failed_writes) (simp add: imaging_image_def)
  have run: "\<exists>s. main failing_write_env (Parsed imaging_options) = Some (Inr (0, s))
          \<and> objects s ! 3 = imaging_image
          \<and> contents (snd (objects s ! 3)) = []
          \<and> glog s = [(INFO, ''Truncating output file: /tmp/out.zip'' @ newline)]"
    by (rule exI[of _ "imaging_ready\<lparr>objects := hp'\<rparr>"])
       (simp add: m j' imaging_image_def imaging_ready_def imaging_start_def initial_state_def)
  have ex: "exit_status (main failing_write_env (Parsed imaging_options)) = Some 0"
    using all[of "\<lambda>c obj d. (IO_ERROR, obj)"] by (simp only: failing_write_env_def)
  show ?thesis
    by (intro conjI allI) (rule all, rule w, rule run, rule ex)
qed

text \<open>
  Claim C10 (positional volumes). Without \<open>--in\<close>, the positional arguments are only
  written to \<open>cout\<close>, one numbered line each. No volume is opened and nothing is parsed:
  the triple store, the object cache and the heap are empty when \<open>parseOptions\<close> returns
  \<open>STATUS_OK\<close>.
\<close>

theorem filenames_only_listed:
  "parseOptions e (Parsed \<lparr>view = vw, verbose = False, truncate_arg = tr, input = None,
                            output = out, filename = fs\<rparr>) initial_state =
     Some (Inr (STATUS_OK, initial_state\<lparr>cout := print_filenames 0 fs\<rparr>))
   \<and> store initial_state = Map.empty \<and> ObjectCache initial_state = Map.empty
   \<and> objects initial_state = []
   \<and> print_filenames 0 [''a.aff4'', ''b.aff4'']
        = ''0  a.aff4'' @ newline @ ''1  b.aff4'' @ newline"
proof (intro conjI)
  show "parseOptions e (Parsed \<lparr>view = vw, verbose = False, truncate_arg = tr, input = None,
                            output = out, filename = fs\<rparr>) initial_state =
     Some (Inr (STATUS_OK, initial_state\<lparr>cout := print_filenames 0 fs\<rparr>))"
    by (simp add: parseOptions_def initial_state_def)
  show "store initial_state = Map.empty" by (simp add: initial_state_def)
  show "ObjectCache initial_state = Map.empty" by (simp add: initial_state_def)
  show "objects initial_state = []" by (simp add: initial_state_def)
  show "print_filenames 0 [''a.aff4'', ''b.aff4'']
        = ''0  a.aff4'' @ newline @ ''1  b.aff4'' @ newline"
    by code_simp
qed

end
